theory Spec2Isabelle
  imports Main "HOL-Library.Word" "HOL-Library.Signed_Division"
begin

unbundle bit_operations_syntax

section \<open>Record layer: nonce window (src/methods/common.c)\<close>

type_synonym byte = "8 word"
type_synonym bytes = "byte list"

text \<open>
  \<^verbatim>\<open>COMMON_NONCEBYTES\<close> and the struct \<^verbatim>\<open>fastd_method_common_t\<close> are declared in
  \<^verbatim>\<open>common.h\<close>, which is not among the sources; the nonce is a 6-byte little-endian
  counter and \<^verbatim>\<open>receive_reorder_seen\<close> an unsigned 64-bit bitmap.
\<close>

definition COMMON_NONCEBYTES :: nat where
  "COMMON_NONCEBYTES = 6"

record timespec =
  tv_sec :: int
  tv_nsec :: int

record fastd_method_common =
  valid_till :: timespec
  refresh_after :: timespec
  send_nonce :: bytes
  receive_nonce :: bytes
  receive_last :: timespec
  receive_reorder_seen :: "64 word"

text \<open>
  The part of \<^verbatim>\<open>fastd_context_t\<close> that common.c reads: the clock snapshot \<^verbatim>\<open>ctx->now\<close>,
  the configuration values (with \<^verbatim>\<open>keepalive_interval\<close>, which the protocol reads), and the
  helper \<^verbatim>\<open>timespec_diff\<close> of fastd.h (not among the sources), taken as a parameter.
\<close>

record fastd_context =
  now :: timespec
  key_valid :: int
  key_refresh :: int
  reorder_time :: int
  reorder_count :: int
  keepalive_interval :: int
  timespec_diff :: "timespec \<Rightarrow> timespec \<Rightarrow> int"

definition zero_nonce :: bytes where
  "zero_nonce = replicate COMMON_NONCEBYTES 0"

text \<open>\<^verbatim>\<open>fastd_method_common_init\<close>; \<open>splay\<close> is the value \<^verbatim>\<open>fastd_rand\<close> returned.\<close>

definition fastd_method_common_init :: "fastd_context \<Rightarrow> int \<Rightarrow> bool \<Rightarrow> fastd_method_common" where
  "fastd_method_common_init ctx splay initiator =
     (let session = \<lparr>valid_till = (now ctx)\<lparr>tv_sec := tv_sec (now ctx) + key_valid ctx\<rparr>,
                     refresh_after = (now ctx)\<lparr>tv_sec := tv_sec (now ctx) + (key_refresh ctx - splay)\<rparr>,
                     send_nonce = zero_nonce,
                     receive_nonce = zero_nonce,
                     receive_last = \<lparr>tv_sec = 0, tv_nsec = 0\<rparr>,
                     receive_reorder_seen = 0\<rparr>
      in if initiator then session\<lparr>send_nonce := (send_nonce session)[0 := 3]\<rparr>
         else session\<lparr>send_nonce := (send_nonce session)[0 := 2],
                      receive_nonce := (receive_nonce session)[0 := 1]\<rparr>)"

text \<open>
  The loop of \<^verbatim>\<open>fastd_method_is_nonce_valid\<close>, from the most significant byte down; each
  difference of two bytes is computed in \<^verbatim>\<open>int\<close>, and the accumulator stays below \<open>2 ^ 48\<close>
  in absolute value, so the 64-bit \<^verbatim>\<open>*age\<close> never overflows.
\<close>

definition nonce_diff :: "bytes \<Rightarrow> bytes \<Rightarrow> int" where
  "nonce_diff rn nonce =
     foldl (\<lambda>age i. age * 256 + (uint (rn ! i) - uint (nonce ! i))) 0 (rev [0..<COMMON_NONCEBYTES])"

text \<open>
  The threshold \<^verbatim>\<open>(int)ctx->conf->reorder_time*1000\<close>: the cast and the product are in 32-bit
  \<^verbatim>\<open>int\<close>.  ISO C leaves an overflow of the product undefined; the model wraps around, as
  the compiled multiplication does.
\<close>

definition reorder_time_ms :: "fastd_context \<Rightarrow> int" where
  "reorder_time_ms ctx = sint (word_of_int (reorder_time ctx) * 1000 :: 32 word)"

text \<open>
  \<^verbatim>\<open>fastd_method_is_nonce_valid\<close>.  The out-parameter \<^verbatim>\<open>*age\<close> is passed in and returned: it
  keeps its old value when the parity test fails.  C's \<^verbatim>\<open>/\<close> truncates towards zero
  (\<open>sdiv\<close>).
\<close>

definition fastd_method_is_nonce_valid ::
    "fastd_context \<Rightarrow> fastd_method_common \<Rightarrow> bytes \<Rightarrow> int \<Rightarrow> bool \<times> int" where
  "fastd_method_is_nonce_valid ctx session nonce age0 =
     (if (nonce ! 0) AND 1 \<noteq> (receive_nonce session ! 0) AND 1 then (False, age0)
      else let age = nonce_diff (receive_nonce session) nonce sdiv 2 in
        if age \<ge> 0 then
          (if timespec_diff ctx (now ctx) (receive_last session) > reorder_time_ms ctx
           then (False, age)
           else if age > reorder_count ctx then (False, age)
           else (True, age))
        else (True, age))"

subsection \<open>C shifts\<close>

text \<open>
  ISO C leaves a shift undefined when the count is negative or not smaller than the width
  of the promoted left operand, and a left shift of a signed value when the result is not
  representable.  The model returns \<open>None\<close> there under \<open>Iso_C\<close>.  Under \<open>Masked_Count\<close> it
  returns what the shift instructions of x86-64 compute, which reduce the count modulo the
  operand width (64 or 32).
\<close>

datatype shift_target = Iso_C | Masked_Count

text \<open>\<^verbatim>\<open>x >> n\<close> for \<^verbatim>\<open>uint64_t x\<close>.\<close>

definition shr_u64 :: "shift_target \<Rightarrow> 64 word \<Rightarrow> int \<Rightarrow> 64 word option" where
  "shr_u64 t x n =
     (if 0 \<le> n \<and> n < 64 then Some (drop_bit (nat n) x)
      else case t of Iso_C \<Rightarrow> None
                   | Masked_Count \<Rightarrow> Some (drop_bit (nat (n mod 64)) x))"

text \<open>\<^verbatim>\<open>1 >> n\<close> and \<^verbatim>\<open>1 << n\<close>: the literal is a 32-bit \<^verbatim>\<open>int\<close>.\<close>

definition shr_int_1 :: "shift_target \<Rightarrow> int \<Rightarrow> int option" where
  "shr_int_1 t n =
     (if 0 \<le> n \<and> n < 32 then Some (1 div 2 ^ nat n)
      else case t of Iso_C \<Rightarrow> None
                   | Masked_Count \<Rightarrow> Some (sint (drop_bit (nat (n mod 32)) (1 :: 32 word))))"

definition shl_int_1 :: "shift_target \<Rightarrow> int \<Rightarrow> int option" where
  "shl_int_1 t n =
     (if 0 \<le> n \<and> n < 31 then Some (2 ^ nat n)
      else case t of Iso_C \<Rightarrow> None
                   | Masked_Count \<Rightarrow> Some (sint (push_bit (nat (n mod 32)) (1 :: 32 word))))"

text \<open>An \<^verbatim>\<open>int\<close> operand of \<^verbatim>\<open>|\<close> or \<^verbatim>\<open>&\<close> with a \<^verbatim>\<open>uint64_t\<close> is converted modulo \<open>2 ^ 64\<close>.\<close>

definition to_u64 :: "int \<Rightarrow> 64 word" where
  "to_u64 v = word_of_int v"

text \<open>
  \<^verbatim>\<open>fastd_method_reorder_check\<close>; \<open>None\<close> is undefined behaviour.  The peer is only used for
  log output.
\<close>

definition fastd_method_reorder_check ::
    "shift_target \<Rightarrow> fastd_context \<Rightarrow> fastd_method_common \<Rightarrow> bytes \<Rightarrow> int
       \<Rightarrow> (bool \<times> fastd_method_common) option" where
  "fastd_method_reorder_check t ctx session nonce age =
     (if age < 0 then
        (case shr_u64 t (receive_reorder_seen session) age of
           None \<Rightarrow> None
         | Some seen \<Rightarrow>
            (case shr_int_1 t (age + 1) of
               None \<Rightarrow> None
             | Some m \<Rightarrow>
                 Some (True, session\<lparr>receive_reorder_seen := seen OR to_u64 m,
                                     receive_nonce := take COMMON_NONCEBYTES nonce,
                                     receive_last := now ctx\<rparr>)))
      else if age = 0 then Some (False, session)
      else
        (case shl_int_1 t (age - 1) of
           None \<Rightarrow> None
         | Some m \<Rightarrow>
             if receive_reorder_seen session AND to_u64 m \<noteq> 0 then Some (False, session)
             else Some (True, session\<lparr>receive_reorder_seen :=
                                        receive_reorder_seen session OR to_u64 m\<rparr>)))"

text \<open>
  The algorithm as the specification words it (section 4.2, reorder check), for comparison
  with the function above.
\<close>

definition spec_reorder_check ::
    "fastd_context \<Rightarrow> fastd_method_common \<Rightarrow> bytes \<Rightarrow> int \<Rightarrow> bool \<times> fastd_method_common" where
  "spec_reorder_check ctx session nonce age =
     (if age < 0 then
        (True, session\<lparr>receive_reorder_seen :=
                         set_bit 0 (drop_bit (nat (- age)) (receive_reorder_seen session)),
                       receive_nonce := take COMMON_NONCEBYTES nonce,
                       receive_last := now ctx\<rparr>)
      else if age = 0 \<or> bit (receive_reorder_seen session) (nat (age - 1)) then (False, session)
      else (True, session\<lparr>receive_reorder_seen :=
                            set_bit (nat (age - 1)) (receive_reorder_seen session)\<rparr>))"

text \<open>
  Modelled from the spec: the decrypt functions of the methods, which call the two checks,
  are not among the sources.  One received nonce is checked by
  \<^verbatim>\<open>fastd_method_is_nonce_valid\<close> and, when that accepts, by \<^verbatim>\<open>fastd_method_reorder_check\<close>
  with the age it computed.
\<close>

definition check_nonce ::
    "shift_target \<Rightarrow> fastd_context \<Rightarrow> fastd_method_common \<Rightarrow> bytes
       \<Rightarrow> (bool \<times> fastd_method_common) option" where
  "check_nonce t ctx session nonce =
     (case fastd_method_is_nonce_valid ctx session nonce 0 of
        (False, _) \<Rightarrow> Some (False, session)
      | (True, age) \<Rightarrow> fastd_method_reorder_check t ctx session nonce age)"

fun check_nonces ::
    "shift_target \<Rightarrow> fastd_context \<Rightarrow> fastd_method_common \<Rightarrow> bytes list \<Rightarrow> bool list option" where
  "check_nonces t ctx session [] = Some []"
| "check_nonces t ctx session (nonce # rest) =
     (case check_nonce t ctx session nonce of
        None \<Rightarrow> None
      | Some (ok, session') \<Rightarrow> map_option ((#) ok) (check_nonces t ctx session' rest))"

text \<open>
  Nonce validity as the specification words it (section 4.2): the parity matches, and
  either the candidate is newer and the last accepted packet is within \<open>reorder_time\<close>
  milliseconds, or the candidate is older by at most \<open>reorder_count\<close> positions.
\<close>

definition spec_is_nonce_valid :: "fastd_context \<Rightarrow> fastd_method_common \<Rightarrow> bytes \<Rightarrow> bool" where
  "spec_is_nonce_valid ctx session nonce =
     ((nonce ! 0) AND 1 = (receive_nonce session ! 0) AND 1 \<and>
      (let age = nonce_diff (receive_nonce session) nonce sdiv 2 in
         (age < 0 \<and> timespec_diff ctx (now ctx) (receive_last session) \<le> reorder_time ctx) \<or>
         (0 \<le> age \<and> age \<le> reorder_count ctx)))"

text \<open>The value of a little-endian byte string.\<close>

fun le_value :: "bytes \<Rightarrow> int" where
  "le_value [] = 0"
| "le_value (b # bs) = uint b + 256 * le_value bs"

text \<open>Inputs used in the evaluations below: a clock, a configuration, nonces.\<close>

definition ms_diff :: "timespec \<Rightarrow> timespec \<Rightarrow> int" where
  "ms_diff a b = (tv_sec a - tv_sec b) * 1000 + (tv_nsec a - tv_nsec b) div 1000000"

definition ctx_at :: "int \<Rightarrow> fastd_context" where
  "ctx_at s = \<lparr>now = \<lparr>tv_sec = s, tv_nsec = 0\<rparr>, key_valid = 3600, key_refresh = 3300,
              reorder_time = 10, reorder_count = 64, keepalive_interval = 20,
              timespec_diff = ms_diff\<rparr>"

definition nonce_of :: "byte \<Rightarrow> bytes" where
  "nonce_of b = [b, 0, 0, 0, 0, 0]"

definition responder_session :: fastd_method_common where
  "responder_session = fastd_method_common_init (ctx_at 100) 0 False"

definition seen4 :: fastd_method_common where
  "seen4 = responder_session\<lparr>receive_reorder_seen := 4\<rparr>"

definition idle_session :: fastd_method_common where
  "idle_session = responder_session\<lparr>receive_nonce := nonce_of 7\<rparr>"

section \<open>Session protocol ec25519-fhmqvc: sessions, send and receive\<close>

text \<open>
  A packet buffer (\<^verbatim>\<open>fastd_buffer\<close>, declared in fastd.h): the address of its storage and
  the length of its payload.  \<^verbatim>\<open>fastd_buffer_alloc\<close> is not among the sources; \<open>base\<close> is
  the address the allocator returns.
\<close>

record fastd_buffer =
  buf_base :: nat
  buf_len :: nat

definition fastd_buffer_alloc :: "nat \<Rightarrow> nat \<Rightarrow> nat \<Rightarrow> nat \<Rightarrow> fastd_buffer" where
  "fastd_buffer_alloc base len head_space tail_space = \<lparr>buf_base = base, buf_len = len\<rparr>"

type_synonym fastd_peer_address = nat

text \<open>
  The function table \<^verbatim>\<open>ctx->conf->method\<close>, applied to \<^verbatim>\<open>ctx\<close>.  A method state is a
  pointer: \<open>None\<close> is \<^verbatim>\<open>NULL\<close>.  \<^verbatim>\<open>encrypt\<close> and \<^verbatim>\<open>decrypt\<close> update the state behind the
  pointer in place (the returned function is that update; the pointer itself stays as it
  is) and return the output buffer on success, which then replaces the input buffer; on
  failure the input buffer stays with the caller.  \<^verbatim>\<open>session_free\<close> only releases memory and is
  recorded as an event.
\<close>

record 'm fastd_method =
  min_encrypt_head_space :: nat
  session_init :: "bytes \<Rightarrow> nat \<Rightarrow> bool \<Rightarrow> 'm option"
  session_is_valid :: "'m option \<Rightarrow> bool"
  session_is_initiator :: "'m option \<Rightarrow> bool"
  session_want_refresh :: "'m option \<Rightarrow> bool"
  encrypt :: "'m option \<Rightarrow> fastd_buffer \<Rightarrow> ('m \<Rightarrow> 'm) \<times> fastd_buffer option"
  decrypt :: "'m option \<Rightarrow> fastd_buffer \<Rightarrow> ('m \<Rightarrow> 'm) \<times> fastd_buffer option"

record 'm protocol_session =
  handshakes_cleaned :: bool
  refreshing :: bool
  method_state :: "'m option"

record 'm fastd_protocol_peer_state =
  old_session :: "'m protocol_session"
  session :: "'m protocol_session"

text \<open>
  The fields of \<^verbatim>\<open>fastd_peer\<close> (peer.h, not among the sources) the protocol uses:
  \<open>established\<close> is what \<^verbatim>\<open>fastd_peer_is_established\<close> reads and
  \<^verbatim>\<open>fastd_peer_set_established\<close> sets; \<open>config\<close> identifies the peer's configuration.
\<close>

record 'm fastd_peer =
  config :: nat
  address :: fastd_peer_address
  established :: bool
  protocol_state :: "'m fastd_protocol_peer_state option"

datatype slot = Previous | Current

datatype crypto_op =
    Random_bytes | Secret_sanitize | Scalarmult_base | Store | Load | Secret_mult | Secret_add
  | Scalarmult | Add | Is_identity | Hash_sha256 | Auth_hmacsha256 | Auth_hmacsha256_verify

datatype record_type =
    RECORD_SENDER_KEY | RECORD_RECEIPIENT_KEY | RECORD_SENDER_HANDSHAKE_KEY
  | RECORD_RECEIPIENT_HANDSHAKE_KEY | RECORD_T

text \<open>The calls that leave the protocol, in the order they are made.\<close>

datatype 'm event =
    Buffer_alloc fastd_buffer
  | Buffer_free fastd_buffer
  | Handle_receive fastd_buffer
  | Send fastd_peer_address fastd_buffer
  | Decrypt slot fastd_buffer "fastd_buffer option"
  | Encrypt slot fastd_buffer "fastd_buffer option"
  | Session_init bytes nat bool
  | Session_free "'m option"
  | Schedule_handshake int
  | Delete_peer_handshakes
  | Delete_peer_keepalives
  | Schedule_keepalive int
  | Peer_seen
  | Claim_address fastd_peer_address bool
  | Peer_reset
  | Set_established
  | Resolve_peer nat
  | Send_handshake fastd_peer_address "(record_type \<times> bytes) list"
  | Crypto crypto_op
  | Exit_bug string

definition is_session_valid :: "'m fastd_method \<Rightarrow> 'm protocol_session \<Rightarrow> bool" where
  "is_session_valid m s = session_is_valid m (method_state s)"

definition get_session :: "slot \<Rightarrow> 'm fastd_protocol_peer_state \<Rightarrow> 'm protocol_session" where
  "get_session sl ps = (case sl of Previous \<Rightarrow> old_session ps | Current \<Rightarrow> session ps)"

definition update_method_state ::
    "slot \<Rightarrow> ('m \<Rightarrow> 'm) \<Rightarrow> 'm fastd_protocol_peer_state \<Rightarrow> 'm fastd_protocol_peer_state" where
  "update_method_state sl f ps =
     (case sl of
        Previous \<Rightarrow>
          ps\<lparr>old_session := (old_session ps)\<lparr>method_state :=
                                  map_option f (method_state (old_session ps))\<rparr>\<rparr>
      | Current \<Rightarrow>
          ps\<lparr>session := (session ps)\<lparr>method_state :=
                              map_option f (method_state (session ps))\<rparr>\<rparr>)"

text \<open>\<^verbatim>\<open>check_session_refresh\<close>, on the state \<^verbatim>\<open>peer->protocol_state\<close> points to.\<close>

definition check_session_refresh ::
    "'m fastd_method \<Rightarrow> 'm fastd_protocol_peer_state \<Rightarrow> 'm fastd_protocol_peer_state \<times> 'm event list" where
  "check_session_refresh m ps =
     (if \<not> refreshing (session ps) \<and> session_is_initiator m (method_state (session ps))
         \<and> session_want_refresh m (method_state (session ps))
      then (ps\<lparr>session := (session ps)\<lparr>refreshing := True\<rparr>\<rparr>, [Schedule_handshake 0])
      else (ps, []))"

text \<open>
  \<^verbatim>\<open>protocol_send\<close> from its second test on, for a peer whose \<^verbatim>\<open>protocol_state\<close> is not
  \<^verbatim>\<open>NULL\<close>; \<open>addr\<close> is \<^verbatim>\<open>peer->address\<close>.
\<close>

definition protocol_send_state ::
    "fastd_context \<Rightarrow> 'm fastd_method \<Rightarrow> fastd_peer_address \<Rightarrow> 'm fastd_protocol_peer_state
       \<Rightarrow> fastd_buffer \<Rightarrow> 'm fastd_protocol_peer_state \<times> 'm event list" where
  "protocol_send_state ctx m addr ps0 buffer =
     (if \<not> is_session_valid m (session ps0) then (ps0, [Buffer_free buffer])
      else
        (case check_session_refresh m ps0 of (ps, ev) \<Rightarrow>
          let sl = (if session_is_initiator m (method_state (session ps))
                       \<and> is_session_valid m (old_session ps)
                    then Previous else Current)
          in (case encrypt m (method_state (get_session sl ps)) buffer of
                (f, None) \<Rightarrow>
                  (update_method_state sl f ps, ev @ [Encrypt sl buffer None, Buffer_free buffer])
              | (f, Some send_buffer) \<Rightarrow>
                  (update_method_state sl f ps,
                   ev @ [Encrypt sl buffer (Some send_buffer), Send addr send_buffer,
                         Delete_peer_keepalives,
                         Schedule_keepalive (keepalive_interval ctx * 1000)]))))"

text \<open>\<^verbatim>\<open>protocol_send\<close>.\<close>

definition protocol_send ::
    "fastd_context \<Rightarrow> 'm fastd_method \<Rightarrow> 'm fastd_peer \<Rightarrow> fastd_buffer
       \<Rightarrow> 'm fastd_peer \<times> 'm event list" where
  "protocol_send ctx m peer buffer =
     (case protocol_state peer of
        None \<Rightarrow> (peer, [Buffer_free buffer])
      | Some ps0 \<Rightarrow>
          (case protocol_send_state ctx m (address peer) ps0 buffer of
             (ps, ev) \<Rightarrow> (peer\<lparr>protocol_state := Some ps\<rparr>, ev)))"

text \<open>
  The block of \<^verbatim>\<open>protocol_handle_recv\<close> that tries the current session (the second
  \<^verbatim>\<open>if (!ok)\<close>), on the state \<^verbatim>\<open>peer->protocol_state\<close> points to.  It returns the new
  state, the decrypted buffer when \<^verbatim>\<open>ok\<close> was set, and the calls made.  \<open>fresh\<close> is the
  address \<^verbatim>\<open>fastd_buffer_alloc\<close> returns for the empty confirmation packet.
\<close>

definition recv_current ::
    "fastd_context \<Rightarrow> 'm fastd_method \<Rightarrow> nat \<Rightarrow> fastd_peer_address \<Rightarrow> 'm fastd_protocol_peer_state
       \<Rightarrow> fastd_buffer \<Rightarrow> 'm fastd_protocol_peer_state \<times> fastd_buffer option \<times> 'm event list" where
  "recv_current ctx m fresh addr ps1 buffer =
     (case decrypt m (method_state (session ps1)) buffer of
        (f, None) \<Rightarrow> (update_method_state Current f ps1, None, [Decrypt Current buffer None])
      | (f, Some recv_buffer) \<Rightarrow>
          let ps2 = update_method_state Current f ps1;
              (ps3, ev3) =
                (if \<not> handshakes_cleaned (session ps2) then
                   let ps = ps2\<lparr>session := (session ps2)\<lparr>handshakes_cleaned := True\<rparr>\<rparr> in
                   if session_is_initiator m (method_state (session ps)) then
                     let empty = fastd_buffer_alloc fresh 0 (min_encrypt_head_space m) 0 in
                     (case protocol_send_state ctx m addr ps empty of
                        (ps', ev) \<Rightarrow> (ps', [Delete_peer_handshakes, Buffer_alloc empty] @ ev))
                   else (ps, [Delete_peer_handshakes])
                 else (ps2, []));
              (ps4, ev4) =
                (if method_state (old_session ps3) \<noteq> None then
                   (ps3\<lparr>old_session := (old_session ps3)\<lparr>method_state := None\<rparr>\<rparr>,
                    [Session_free (method_state (old_session ps3))])
                 else (ps3, []));
              (ps5, ev5) = check_session_refresh m ps4
          in (ps5, Some recv_buffer, [Decrypt Current buffer (Some recv_buffer)] @ ev3 @ ev4 @ ev5))"

text \<open>\<^verbatim>\<open>protocol_handle_recv\<close>; the label \<^verbatim>\<open>fail\<close> frees the received buffer.\<close>

definition protocol_handle_recv ::
    "fastd_context \<Rightarrow> 'm fastd_method \<Rightarrow> nat \<Rightarrow> 'm fastd_peer \<Rightarrow> fastd_buffer
       \<Rightarrow> 'm fastd_peer \<times> 'm event list" where
  "protocol_handle_recv ctx m fresh peer buffer =
     (if \<not> established peer then (peer, [Schedule_handshake 0, Buffer_free buffer])
      else
        (case protocol_state peer of
           None \<Rightarrow> (peer, [Buffer_free buffer])
         | Some ps0 \<Rightarrow>
             if \<not> is_session_valid m (session ps0) then (peer, [Buffer_free buffer])
             else
               let (ps1, ok1, ev1) =
                     (if is_session_valid m (old_session ps0) then
                        (case decrypt m (method_state (old_session ps0)) buffer of
                           (f, out) \<Rightarrow>
                             (update_method_state Previous f ps0, out, [Decrypt Previous buffer out]))
                      else (ps0, None, []));
                   (ps2, ok2, ev2) =
                     (case ok1 of
                        Some recv_buffer \<Rightarrow> (ps1, ok1, [])
                      | None \<Rightarrow> recv_current ctx m fresh (address peer) ps1 buffer)
               in (case ok2 of
                     None \<Rightarrow>
                       (peer\<lparr>protocol_state := Some ps2\<rparr>, ev1 @ ev2 @ [Buffer_free buffer])
                   | Some recv_buffer \<Rightarrow>
                       (peer\<lparr>protocol_state := Some ps2\<rparr>,
                        ev1 @ ev2 @ [Peer_seen] @
                          (if buf_len recv_buffer \<noteq> 0 then [Handle_receive recv_buffer]
                           else [Buffer_free recv_buffer])))))"

subsection \<open>Buffer accounting\<close>

text \<open>
  The buffers a caller owns after one call: an allocation adds one; freeing, delivering
  upward or transmitting removes one; a successful \<^verbatim>\<open>encrypt\<close> or \<^verbatim>\<open>decrypt\<close> replaces its
  input by its output.  \<open>None\<close>: the call uses a buffer that is not owned (any more).
\<close>

definition give_up :: "fastd_buffer \<Rightarrow> fastd_buffer list \<Rightarrow> fastd_buffer list option" where
  "give_up b owned = (if b \<in> set owned then Some (remove1 b owned) else None)"

fun owned_after :: "'m event \<Rightarrow> fastd_buffer list \<Rightarrow> fastd_buffer list option" where
  "owned_after (Buffer_alloc b) owned = Some (b # owned)"
| "owned_after (Buffer_free b) owned = give_up b owned"
| "owned_after (Handle_receive b) owned = give_up b owned"
| "owned_after (Send a b) owned = give_up b owned"
| "owned_after (Decrypt sl b (Some out)) owned = map_option ((#) out) (give_up b owned)"
| "owned_after (Encrypt sl b (Some out)) owned = map_option ((#) out) (give_up b owned)"
| "owned_after e owned = Some owned"

fun owned_at_end :: "fastd_buffer list \<Rightarrow> 'm event list \<Rightarrow> fastd_buffer list option" where
  "owned_at_end owned [] = Some owned"
| "owned_at_end owned (e # es) =
     (case owned_after e owned of None \<Rightarrow> None | Some owned' \<Rightarrow> owned_at_end owned' es)"

text \<open>
  Every buffer is freed or handed off exactly once: no call touches a buffer that is not
  owned, and none is left at the end.
\<close>

definition exactly_once :: "fastd_buffer \<Rightarrow> 'm event list \<Rightarrow> bool" where
  "exactly_once buffer evs = (owned_at_end [buffer] evs = Some [])"


fun decrypt_slots :: "'m event list \<Rightarrow> slot list" where
  "decrypt_slots [] = []"
| "decrypt_slots (Decrypt sl b out # es) = sl # decrypt_slots es"
| "decrypt_slots (e # es) = decrypt_slots es"

section \<open>Session protocol ec25519-fhmqvc: handshake\<close>

definition PUBLICKEYBYTES :: nat where
  "PUBLICKEYBYTES = 32"

definition HASHBYTES :: nat where
  "HASHBYTES = 32"

text \<open>\<^verbatim>\<open>crypto_auth_hmacsha256_BYTES\<close> of NaCl.\<close>

definition HMACBYTES :: nat where
  "HMACBYTES = 32"

text \<open>
  The primitives of libuecc and NaCl, which are not among the sources, as parameters.
  Keys, scalars, hashes and tags are byte strings; \<open>'w\<close> is \<^verbatim>\<open>ecc_25519_work\<close>.  The
  arguments of the MAC functions are (message, key) and (tag, message, key);
  \<^verbatim>\<open>crypto_auth_hmacsha256_verify\<close> is \<open>True\<close> where the C function returns 0.
\<close>

record 'w crypto =
  crypto_hash_sha256 :: "bytes \<Rightarrow> bytes"
  crypto_auth_hmacsha256 :: "bytes \<Rightarrow> bytes \<Rightarrow> bytes"
  crypto_auth_hmacsha256_verify :: "bytes \<Rightarrow> bytes \<Rightarrow> bytes \<Rightarrow> bool"
  ecc_25519_secret_sanitize :: "bytes \<Rightarrow> bytes"
  ecc_25519_secret_mult :: "bytes \<Rightarrow> bytes \<Rightarrow> bytes"
  ecc_25519_secret_add :: "bytes \<Rightarrow> bytes \<Rightarrow> bytes"
  ecc_25519_scalarmult_base :: "bytes \<Rightarrow> 'w"
  ecc_25519_scalarmult :: "bytes \<Rightarrow> 'w \<Rightarrow> 'w"
  ecc_25519_add :: "'w \<Rightarrow> 'w \<Rightarrow> 'w"
  ecc_25519_load :: "bytes \<Rightarrow> 'w"
  ecc_25519_store :: "'w \<Rightarrow> bytes"
  ecc_25519_is_identity :: "'w \<Rightarrow> bool"

text \<open>
  The structs of the protocol.  Three of them have fields \<^verbatim>\<open>secret_key\<close> and
  \<^verbatim>\<open>public_key\<close>, which carry a prefix here.  A peer configuration
  (\<^verbatim>\<open>fastd_peer_config\<close>, not among the sources) is identified by \<open>pc_id\<close>; \<open>pc_floating\<close>,
  \<open>pc_dynamic\<close> and \<open>pc_matches_dynamic\<close> are what \<^verbatim>\<open>fastd_peer_config_is_floating\<close>,
  \<^verbatim>\<open>fastd_peer_config_is_dynamic\<close> and \<^verbatim>\<open>fastd_peer_config_matches_dynamic\<close> return.
\<close>

record fastd_protocol_config =
  conf_secret_key :: bytes
  conf_public_key :: bytes

record handshake_key =
  hk_preferred_till :: timespec
  hk_valid_till :: timespec
  hk_secret_key :: bytes
  hk_public_key :: bytes

record fastd_protocol_state =
  prev_handshake_key :: handshake_key
  handshake_key :: handshake_key

record fastd_peer_config =
  pc_id :: nat
  pc_public_key :: bytes
  pc_floating :: bool
  pc_dynamic :: bool
  pc_matches_dynamic :: "fastd_peer_address \<Rightarrow> bool"

record handshake_record =
  rec_length :: nat
  rec_data :: bytes

record fastd_handshake =
  hs_type :: nat
  records :: "record_type \<Rightarrow> handshake_record"

text \<open>
  Modelled from the spec: \<^verbatim>\<open>timespec_after\<close> of fastd.h, which is not among the sources.
  A handshake key is preferred, or valid, while \<open>now\<close> is before the respective time.
\<close>

definition timespec_after :: "timespec \<Rightarrow> timespec \<Rightarrow> bool" where
  "timespec_after a b = (tv_sec a > tv_sec b \<or> (tv_sec a = tv_sec b \<and> tv_nsec a > tv_nsec b))"

definition is_handshake_key_valid :: "fastd_context \<Rightarrow> handshake_key \<Rightarrow> bool" where
  "is_handshake_key_valid ctx hkey = timespec_after (hk_valid_till hkey) (now ctx)"

definition is_handshake_key_preferred :: "fastd_context \<Rightarrow> handshake_key \<Rightarrow> bool" where
  "is_handshake_key_preferred ctx hkey = timespec_after (hk_preferred_till hkey) (now ctx)"

text \<open>\<^verbatim>\<open>memcmp(a, b, PUBLICKEYBYTES) == 0\<close>.\<close>

definition key_equal :: "bytes \<Rightarrow> bytes \<Rightarrow> bool" where
  "key_equal a b = (take PUBLICKEYBYTES a = take PUBLICKEYBYTES b)"

definition zero_handshake_key :: handshake_key where
  "zero_handshake_key =
     \<lparr>hk_preferred_till = \<lparr>tv_sec = 0, tv_nsec = 0\<rparr>, hk_valid_till = \<lparr>tv_sec = 0, tv_nsec = 0\<rparr>,
      hk_secret_key = replicate 32 0, hk_public_key = replicate PUBLICKEYBYTES 0\<rparr>"

text \<open>
  \<^verbatim>\<open>maintenance\<close>: \<open>state0\<close> is \<^verbatim>\<open>ctx->protocol_state\<close> (\<open>None\<close> for \<^verbatim>\<open>NULL\<close>), \<open>rnd\<close> the 32
  bytes \<^verbatim>\<open>fastd_random_bytes\<close> delivers.
\<close>

definition maintenance ::
    "'w crypto \<Rightarrow> fastd_context \<Rightarrow> bytes \<Rightarrow> fastd_protocol_state option
       \<Rightarrow> fastd_protocol_state \<times> 'm event list" where
  "maintenance cr ctx rnd state0 =
     (let state = (case state0 of
                     None \<Rightarrow> \<lparr>prev_handshake_key = zero_handshake_key,
                              handshake_key = zero_handshake_key\<rparr>
                   | Some st \<Rightarrow> st)
      in if \<not> is_handshake_key_preferred ctx (handshake_key state) then
           let secret = ecc_25519_secret_sanitize cr rnd;
               work = ecc_25519_scalarmult_base cr secret
           in (\<lparr>prev_handshake_key = handshake_key state,
                handshake_key =
                  \<lparr>hk_preferred_till = (now ctx)\<lparr>tv_sec := tv_sec (now ctx) + 15\<rparr>,
                   hk_valid_till = (now ctx)\<lparr>tv_sec := tv_sec (now ctx) + 30\<rparr>,
                   hk_secret_key = secret,
                   hk_public_key = ecc_25519_store cr work\<rparr>\<rparr>,
               [Crypto Random_bytes, Crypto Secret_sanitize, Crypto Scalarmult_base,
                Crypto Store])
         else (state, []))"

text \<open>
  The two scalars cut from a hash: \<^verbatim>\<open>d\<close> is its first half, \<^verbatim>\<open>e\<close> its second half, each
  in a zeroed 32-byte scalar with the top bit of byte 15 set.
\<close>

definition half_scalar :: "bytes \<Rightarrow> bytes" where
  "half_scalar half =
     (let sc = take (HASHBYTES div 2) half @ replicate (HASHBYTES div 2) 0
      in sc[15 := (sc ! 15) OR 0x80])"

definition scalar_d :: "bytes \<Rightarrow> bytes" where
  "scalar_d hashbuf = half_scalar (take (HASHBYTES div 2) hashbuf)"

definition scalar_e :: "bytes \<Rightarrow> bytes" where
  "scalar_e hashbuf = half_scalar (drop (HASHBYTES div 2) hashbuf)"

text \<open>
  The point computed by \<^verbatim>\<open>respond_handshake\<close> and, with the same statements, by
  \<^verbatim>\<open>handle_finish_handshake\<close>, before the identity test; \<open>hkey\<close> is the local handshake key,
  \<open>peer_hkey\<close> the peer's.
\<close>

definition responder_hashinput ::
    "fastd_protocol_config \<Rightarrow> fastd_peer_config \<Rightarrow> handshake_key \<Rightarrow> bytes \<Rightarrow> bytes" where
  "responder_hashinput conf peer_conf hkey peer_hkey =
     hk_public_key hkey @ peer_hkey @ conf_public_key conf @ pc_public_key peer_conf"

definition responder_work ::
    "'w crypto \<Rightarrow> fastd_protocol_config \<Rightarrow> fastd_peer_config \<Rightarrow> handshake_key \<Rightarrow> bytes \<Rightarrow> 'w" where
  "responder_work cr conf peer_conf hkey peer_hkey =
     (let hashbuf = crypto_hash_sha256 cr (responder_hashinput conf peer_conf hkey peer_hkey);
          d = scalar_d hashbuf;
          e = scalar_e hashbuf;
          eb = ecc_25519_secret_mult cr e (conf_secret_key conf);
          s = ecc_25519_secret_add cr eb (hk_secret_key hkey);
          work = ecc_25519_load cr (pc_public_key peer_conf);
          workX = ecc_25519_load cr peer_hkey;
          work = ecc_25519_scalarmult cr d work;
          work = ecc_25519_add cr workX work
      in ecc_25519_scalarmult cr s work)"

text \<open>The same for \<^verbatim>\<open>finish_handshake\<close>.\<close>

definition initiator_hashinput ::
    "fastd_protocol_config \<Rightarrow> fastd_peer_config \<Rightarrow> handshake_key \<Rightarrow> bytes \<Rightarrow> bytes" where
  "initiator_hashinput conf peer_conf hkey peer_hkey =
     peer_hkey @ hk_public_key hkey @ pc_public_key peer_conf @ conf_public_key conf"

definition initiator_work ::
    "'w crypto \<Rightarrow> fastd_protocol_config \<Rightarrow> fastd_peer_config \<Rightarrow> handshake_key \<Rightarrow> bytes \<Rightarrow> 'w" where
  "initiator_work cr conf peer_conf hkey peer_hkey =
     (let hashbuf = crypto_hash_sha256 cr (initiator_hashinput conf peer_conf hkey peer_hkey);
          d = scalar_d hashbuf;
          e = scalar_e hashbuf;
          da = ecc_25519_secret_mult cr d (conf_secret_key conf);
          s = ecc_25519_secret_add cr da (hk_secret_key hkey);
          work = ecc_25519_load cr (pc_public_key peer_conf);
          workY = ecc_25519_load cr peer_hkey;
          work = ecc_25519_scalarmult cr e work;
          work = ecc_25519_add cr workY work
      in ecc_25519_scalarmult cr s work)"

text \<open>The primitives called up to and including the identity test.\<close>

definition agreement_ops :: "'m event list" where
  "agreement_ops =
     [Crypto Hash_sha256, Crypto Secret_mult, Crypto Secret_add, Crypto Load, Crypto Load,
      Crypto Scalarmult, Crypto Add, Crypto Scalarmult, Crypto Is_identity]"

text \<open>
  \<^verbatim>\<open>respond_handshake\<close>.  The reply built with \<^verbatim>\<open>fastd_handshake_new_reply\<close> and
  \<^verbatim>\<open>fastd_handshake_add\<close> and passed to \<^verbatim>\<open>fastd_send_handshake\<close> is the list of its records.
\<close>

definition respond_handshake ::
    "'w crypto \<Rightarrow> fastd_protocol_config \<Rightarrow> fastd_peer_address \<Rightarrow> fastd_peer_config
       \<Rightarrow> handshake_key \<Rightarrow> bytes \<Rightarrow> fastd_handshake \<Rightarrow> 'm event list" where
  "respond_handshake cr conf addr peer_conf hkey peer_hkey handshake =
     (let work = responder_work cr conf peer_conf hkey peer_hkey in
      if ecc_25519_is_identity cr work then agreement_ops
      else
        let sigma = ecc_25519_store cr work;
            shared_handshake_key =
              crypto_hash_sha256 cr (responder_hashinput conf peer_conf hkey peer_hkey @ sigma);
            hmacbuf = crypto_auth_hmacsha256 cr
                        (conf_public_key conf @ hk_public_key hkey) shared_handshake_key
        in agreement_ops @
           [Crypto Store, Crypto Hash_sha256, Crypto Auth_hmacsha256,
            Send_handshake addr
              [(RECORD_SENDER_KEY, conf_public_key conf),
               (RECORD_RECEIPIENT_KEY, pc_public_key peer_conf),
               (RECORD_SENDER_HANDSHAKE_KEY, hk_public_key hkey),
               (RECORD_RECEIPIENT_HANDSHAKE_KEY, peer_hkey),
               (RECORD_T, hmacbuf)]])"

text \<open>
  \<^verbatim>\<open>establish\<close>.  \<^verbatim>\<open>exit_bug\<close> ends the process: it is the last event, and nothing else
  changes.  The outcome of \<^verbatim>\<open>fastd_peer_claim_address\<close> (peer.c, not among the sources) is
  the parameter \<open>claim_ok\<close>; on success the peer has the address.  \<^verbatim>\<open>fastd_peer_reset\<close>
  is the parameter \<open>reset\<close>.  The keys have the type \<^verbatim>\<open>ecc_public_key_256\<close>, 32 bytes each.
\<close>

fun peer_index :: "'m fastd_peer list \<Rightarrow> nat \<Rightarrow> nat option" where
  "peer_index [] c = None"
| "peer_index (p # ps) c = (if config p = c then Some 0 else map_option Suc (peer_index ps c))"

definition init_peer_state :: "'m fastd_peer \<Rightarrow> 'm fastd_protocol_peer_state" where
  "init_peer_state peer =
     (case protocol_state peer of
        Some ps \<Rightarrow> ps
      | None \<Rightarrow>
          \<lparr>old_session = \<lparr>handshakes_cleaned = False, refreshing = False, method_state = None\<rparr>,
           session = \<lparr>handshakes_cleaned = False, refreshing = False, method_state = None\<rparr>\<rparr>)"

definition establish ::
    "'w crypto \<Rightarrow> fastd_context \<Rightarrow> 'm fastd_method \<Rightarrow> nat \<Rightarrow> bool \<Rightarrow> ('m fastd_peer \<Rightarrow> 'm fastd_peer)
       \<Rightarrow> 'm fastd_peer list \<Rightarrow> fastd_peer_config \<Rightarrow> fastd_peer_address \<Rightarrow> bool
       \<Rightarrow> bytes \<Rightarrow> bytes \<Rightarrow> bytes \<Rightarrow> bytes \<Rightarrow> bytes
       \<Rightarrow> 'm fastd_peer list \<times> 'm event list" where
  "establish cr ctx m fresh claim_ok reset peers peer_conf addr initiator A B X Y sigma =
     (case peer_index peers (pc_id peer_conf) of
        None \<Rightarrow> (peers, [Exit_bug ''no peer for config found''])
      | Some i \<Rightarrow>
          let peer = peers ! i;
              ps0 = init_peer_state peer;
              (ps1, ev1) =
                (if is_session_valid m (session ps0) \<and> \<not> is_session_valid m (old_session ps0)
                 then (ps0\<lparr>old_session := session ps0\<rparr>,
                       [Session_free (method_state (old_session ps0))])
                 else (ps0, [Session_free (method_state (session ps0))]));
              hash = crypto_hash_sha256 cr (X @ Y @ A @ B @ sigma);
              ps2 = ps1\<lparr>session := \<lparr>handshakes_cleaned = False, refreshing = False,
                                     method_state = session_init m hash HASHBYTES initiator\<rparr>\<rparr>;
              ev2 = ev1 @ [Crypto Hash_sha256, Session_init hash HASHBYTES initiator, Peer_seen,
                           Claim_address addr claim_ok]
          in if \<not> claim_ok then
               (peers[i := reset (peer\<lparr>protocol_state := Some ps2\<rparr>)], ev2 @ [Peer_reset])
             else
               let peer3 = peer\<lparr>address := addr, established := True, protocol_state := Some ps2\<rparr>;
                   ev3 = ev2 @ [Set_established,
                                Schedule_keepalive (keepalive_interval ctx * 1000)]
               in if \<not> initiator then
                    let empty = fastd_buffer_alloc fresh 0 (min_encrypt_head_space m) 0 in
                    (case protocol_send_state ctx m addr ps2 empty of
                       (ps, ev) \<Rightarrow>
                         (peers[i := peer3\<lparr>protocol_state := Some ps\<rparr>],
                          ev3 @ [Buffer_alloc empty] @ ev))
                  else (peers[i := peer3], ev3))"

text \<open>\<^verbatim>\<open>finish_handshake\<close>.\<close>

definition finish_handshake ::
    "'w crypto \<Rightarrow> fastd_context \<Rightarrow> 'm fastd_method \<Rightarrow> nat \<Rightarrow> bool \<Rightarrow> ('m fastd_peer \<Rightarrow> 'm fastd_peer)
       \<Rightarrow> fastd_protocol_config \<Rightarrow> 'm fastd_peer list \<Rightarrow> fastd_peer_address \<Rightarrow> fastd_peer_config
       \<Rightarrow> handshake_key \<Rightarrow> bytes \<Rightarrow> fastd_handshake \<Rightarrow> 'm fastd_peer list \<times> 'm event list" where
  "finish_handshake cr ctx m fresh claim_ok reset conf peers addr peer_conf hkey peer_hkey handshake =
     (let work = initiator_work cr conf peer_conf hkey peer_hkey in
      if ecc_25519_is_identity cr work then (peers, agreement_ops)
      else
        let sigma = ecc_25519_store cr work;
            shared_handshake_key =
              crypto_hash_sha256 cr (initiator_hashinput conf peer_conf hkey peer_hkey @ sigma);
            ev1 = agreement_ops @ [Crypto Store, Crypto Hash_sha256, Crypto Auth_hmacsha256_verify]
        in if \<not> crypto_auth_hmacsha256_verify cr (rec_data (records handshake RECORD_T))
                   (pc_public_key peer_conf @ peer_hkey) shared_handshake_key
           then (peers, ev1)
           else
             let hmacbuf = crypto_auth_hmacsha256 cr
                             (conf_public_key conf @ hk_public_key hkey) shared_handshake_key;
                 ev2 = ev1 @
                   [Crypto Auth_hmacsha256,
                    Send_handshake addr
                      [(RECORD_SENDER_KEY, conf_public_key conf),
                       (RECORD_RECEIPIENT_KEY, pc_public_key peer_conf),
                       (RECORD_SENDER_HANDSHAKE_KEY, hk_public_key hkey),
                       (RECORD_RECEIPIENT_HANDSHAKE_KEY, peer_hkey),
                       (RECORD_T, hmacbuf)]]
             in (case establish cr ctx m fresh claim_ok reset peers peer_conf addr True
                        (hk_public_key hkey) peer_hkey (conf_public_key conf)
                        (pc_public_key peer_conf) sigma of
                   (peers', ev) \<Rightarrow> (peers', ev2 @ ev)))"

text \<open>\<^verbatim>\<open>handle_finish_handshake\<close>.\<close>

definition handle_finish_handshake ::
    "'w crypto \<Rightarrow> fastd_context \<Rightarrow> 'm fastd_method \<Rightarrow> nat \<Rightarrow> bool \<Rightarrow> ('m fastd_peer \<Rightarrow> 'm fastd_peer)
       \<Rightarrow> fastd_protocol_config \<Rightarrow> 'm fastd_peer list \<Rightarrow> fastd_peer_address \<Rightarrow> fastd_peer_config
       \<Rightarrow> handshake_key \<Rightarrow> bytes \<Rightarrow> fastd_handshake \<Rightarrow> 'm fastd_peer list \<times> 'm event list" where
  "handle_finish_handshake cr ctx m fresh claim_ok reset conf peers addr peer_conf hkey peer_hkey
       handshake =
     (let work = responder_work cr conf peer_conf hkey peer_hkey in
      if ecc_25519_is_identity cr work then (peers, agreement_ops)
      else
        let sigma = ecc_25519_store cr work;
            shared_handshake_key =
              crypto_hash_sha256 cr (responder_hashinput conf peer_conf hkey peer_hkey @ sigma);
            ev1 = agreement_ops @ [Crypto Store, Crypto Hash_sha256, Crypto Auth_hmacsha256_verify]
        in if \<not> crypto_auth_hmacsha256_verify cr (rec_data (records handshake RECORD_T))
                   (pc_public_key peer_conf @ peer_hkey) shared_handshake_key
           then (peers, ev1)
           else
             (case establish cr ctx m fresh claim_ok reset peers peer_conf addr False
                     peer_hkey (hk_public_key hkey) (pc_public_key peer_conf)
                     (conf_public_key conf) sigma of
                (peers', ev) \<Rightarrow> (peers', ev1 @ ev)))"

text \<open>\<^verbatim>\<open>match_sender_key\<close>; \<open>confs\<close> is the list \<^verbatim>\<open>ctx->conf->peers\<close>.\<close>

fun scan_peer_configs ::
    "fastd_peer_config list \<Rightarrow> fastd_peer_address \<Rightarrow> bytes \<Rightarrow> fastd_peer_config option \<times> 'm event list" where
  "scan_peer_configs [] addr key = (None, [])"
| "scan_peer_configs (c # cs) addr key =
     (if \<not> pc_floating c \<and> \<not> pc_matches_dynamic c addr then scan_peer_configs cs addr key
      else if key_equal (pc_public_key c) key then
        (if pc_floating c then (Some c, []) else (None, [Resolve_peer (pc_id c)]))
      else scan_peer_configs cs addr key)"

definition match_sender_key ::
    "fastd_peer_config list \<Rightarrow> fastd_peer_address \<Rightarrow> fastd_peer_config option \<Rightarrow> bytes
       \<Rightarrow> fastd_peer_config option \<times> 'm event list" where
  "match_sender_key confs addr peer_conf key =
     (case peer_conf of
        None \<Rightarrow> scan_peer_configs confs addr key
      | Some pc \<Rightarrow>
          if key_equal (pc_public_key pc) key then (Some pc, [])
          else if pc_floating pc \<or> pc_dynamic pc then scan_peer_configs confs addr key
          else (None, []))"

definition has_field :: "fastd_handshake \<Rightarrow> record_type \<Rightarrow> nat \<Rightarrow> bool" where
  "has_field handshake ty len = (rec_length (records handshake ty) = len)"

text \<open>
  The choice of the local handshake key in the cases 2 and 3 of
  \<^verbatim>\<open>protocol_handshake_handle\<close> (the same statements in both): the current key if it is
  valid and its public half is the received recipient handshake key, else the previous key
  under the same conditions, else none.
\<close>

definition locate_handshake_key ::
    "fastd_context \<Rightarrow> fastd_protocol_state \<Rightarrow> bytes \<Rightarrow> handshake_key option" where
  "locate_handshake_key ctx state key =
     (if is_handshake_key_valid ctx (handshake_key state)
         \<and> key_equal (hk_public_key (handshake_key state)) key
      then Some (handshake_key state)
      else if is_handshake_key_valid ctx (prev_handshake_key state)
         \<and> key_equal (hk_public_key (prev_handshake_key state)) key
      then Some (prev_handshake_key state)
      else None)"

text \<open>
  \<^verbatim>\<open>protocol_handshake_handle\<close>.  It returns the handshake keys after \<^verbatim>\<open>maintenance\<close>, the
  peers and the calls made; every \<^verbatim>\<open>return\<close> before the \<^verbatim>\<open>switch\<close> and the \<^verbatim>\<open>default\<close> case
  only write a debug message.
\<close>

definition protocol_handshake_handle ::
    "'w crypto \<Rightarrow> fastd_context \<Rightarrow> 'm fastd_method \<Rightarrow> nat \<Rightarrow> bool \<Rightarrow> ('m fastd_peer \<Rightarrow> 'm fastd_peer)
       \<Rightarrow> bytes \<Rightarrow> fastd_protocol_config \<Rightarrow> fastd_peer_config list
       \<Rightarrow> fastd_protocol_state option \<Rightarrow> 'm fastd_peer list
       \<Rightarrow> fastd_peer_address \<Rightarrow> fastd_peer_config option \<Rightarrow> fastd_handshake
       \<Rightarrow> fastd_protocol_state \<times> 'm fastd_peer list \<times> 'm event list" where
  "protocol_handshake_handle cr ctx m fresh claim_ok reset rnd conf confs state0 peers addr
       peer_conf0 handshake =
     (case maintenance cr ctx rnd state0 of
        (state, ev0) \<Rightarrow>
          if \<not> has_field handshake RECORD_SENDER_KEY PUBLICKEYBYTES then (state, peers, ev0)
          else
            (case match_sender_key confs addr peer_conf0
                    (rec_data (records handshake RECORD_SENDER_KEY)) of
               (None, ev1) \<Rightarrow> (state, peers, ev0 @ ev1)
             | (Some peer_conf, ev1) \<Rightarrow>
                 if hs_type handshake > 1
                    \<and> \<not> has_field handshake RECORD_RECEIPIENT_KEY PUBLICKEYBYTES
                 then (state, peers, ev0 @ ev1)
                 else if has_field handshake RECORD_RECEIPIENT_KEY PUBLICKEYBYTES
                    \<and> \<not> key_equal (conf_public_key conf)
                          (rec_data (records handshake RECORD_RECEIPIENT_KEY))
                 then (state, peers, ev0 @ ev1)
                 else if \<not> has_field handshake RECORD_SENDER_HANDSHAKE_KEY PUBLICKEYBYTES
                 then (state, peers, ev0 @ ev1)
                 else if hs_type handshake > 1
                    \<and> \<not> has_field handshake RECORD_RECEIPIENT_HANDSHAKE_KEY PUBLICKEYBYTES
                 then (state, peers, ev0 @ ev1)
                 else if hs_type handshake > 1 \<and> \<not> has_field handshake RECORD_T HMACBYTES
                 then (state, peers, ev0 @ ev1)
                 else if hs_type handshake = 1 then
                   (state, peers,
                    ev0 @ ev1 @
                      respond_handshake cr conf addr peer_conf (handshake_key state)
                        (rec_data (records handshake RECORD_SENDER_HANDSHAKE_KEY)) handshake)
                 else if hs_type handshake = 2 then
                   (case locate_handshake_key ctx state
                           (rec_data (records handshake RECORD_RECEIPIENT_HANDSHAKE_KEY)) of
                      None \<Rightarrow> (state, peers, ev0 @ ev1)
                    | Some hkey \<Rightarrow>
                        (case finish_handshake cr ctx m fresh claim_ok reset conf peers addr
                                peer_conf hkey
                                (rec_data (records handshake RECORD_SENDER_HANDSHAKE_KEY))
                                handshake of
                           (peers', ev) \<Rightarrow> (state, peers', ev0 @ ev1 @ ev)))
                 else if hs_type handshake = 3 then
                   (case locate_handshake_key ctx state
                           (rec_data (records handshake RECORD_RECEIPIENT_HANDSHAKE_KEY)) of
                      None \<Rightarrow> (state, peers, ev0 @ ev1)
                    | Some hkey \<Rightarrow>
                        (case handle_finish_handshake cr ctx m fresh claim_ok reset conf peers addr
                                peer_conf hkey
                                (rec_data (records handshake RECORD_SENDER_HANDSHAKE_KEY))
                                handshake of
                           (peers', ev) \<Rightarrow> (state, peers', ev0 @ ev1 @ ev)))
                 else (state, peers, ev0 @ ev1)))"

text \<open>The primitives called, in order.\<close>

fun crypto_ops :: "'m event list \<Rightarrow> crypto_op list" where
  "crypto_ops [] = []"
| "crypto_ops (Crypto op # es) = op # crypto_ops es"
| "crypto_ops (e # es) = crypto_ops es"

fun handshakes_sent :: "'m event list \<Rightarrow> (record_type \<times> bytes) list list" where
  "handshakes_sent [] = []"
| "handshakes_sent (Send_handshake a recs # es) = recs # handshakes_sent es"
| "handshakes_sent (e # es) = handshakes_sent es"

text \<open>The session secrets handed to \<^verbatim>\<open>session_init\<close>, with length and initiator flag.\<close>

fun session_inits :: "'m event list \<Rightarrow> (bytes \<times> nat \<times> bool) list" where
  "session_inits [] = []"
| "session_inits (Session_init secret len initiator # es) = (secret, len, initiator) # session_inits es"
| "session_inits (e # es) = session_inits es"

text \<open>
  A method for the evaluations below.  It passes buffers through unchanged, as the null
  method does.  Its state is the initiator flag, a key and whether the session has not
  expired; the buffers of the model have no content, so a buffer counts as encrypted under
  the key that equals its address, and decryption fails under any other key.
\<close>

record test_state =
  ts_initiator :: bool
  ts_key :: nat
  ts_valid :: bool

definition test_method :: "test_state fastd_method" where
  "test_method =
     \<lparr>min_encrypt_head_space = 0,
      session_init = (\<lambda>secret len initiator.
         Some \<lparr>ts_initiator = initiator, ts_key = length secret, ts_valid = True\<rparr>),
      session_is_valid = (\<lambda>st. case st of None \<Rightarrow> False | Some t \<Rightarrow> ts_valid t),
      session_is_initiator = (\<lambda>st. case st of None \<Rightarrow> False | Some t \<Rightarrow> ts_initiator t),
      session_want_refresh = (\<lambda>st. False),
      encrypt = (\<lambda>st b. (id, Some b)),
      decrypt = (\<lambda>st b. (id, case st of None \<Rightarrow> None
                                  | Some t \<Rightarrow> if buf_base b = ts_key t then Some b else None))\<rparr>"

definition test_session :: "bool \<Rightarrow> bool \<Rightarrow> nat \<Rightarrow> test_state protocol_session" where
  "test_session cleaned initiator key =
     \<lparr>handshakes_cleaned = cleaned, refreshing = False,
      method_state = Some \<lparr>ts_initiator = initiator, ts_key = key, ts_valid = True\<rparr>\<rparr>"

definition expired_session :: "test_state protocol_session" where
  "expired_session =
     \<lparr>handshakes_cleaned = True, refreshing = False,
      method_state = Some \<lparr>ts_initiator = True, ts_key = 2, ts_valid = False\<rparr>\<rparr>"

definition no_session :: "test_state protocol_session" where
  "no_session = \<lparr>handshakes_cleaned = False, refreshing = False, method_state = None\<rparr>"

definition test_peer ::
    "test_state protocol_session \<Rightarrow> test_state protocol_session \<Rightarrow> test_state fastd_peer" where
  "test_peer old cur =
     \<lparr>config = 1, address = 7, established = True,
      protocol_state = Some \<lparr>old_session = old, session = cur\<rparr>\<rparr>"

definition test_buffer :: "nat \<Rightarrow> nat \<Rightarrow> fastd_buffer" where
  "test_buffer base len = \<lparr>buf_base = base, buf_len = len\<rparr>"

definition rekeyed_peer :: "test_state fastd_peer" where
  "rekeyed_peer = test_peer (test_session True True 1) (test_session False True 2)"

text \<open>
  Modelled from the spec: \<^verbatim>\<open>fastd_peer_reset\<close> of peer.c, which is not among the sources.
  A reset destroys the sessions of the peer, and the peer is not established any more.
\<close>

definition fastd_peer_reset :: "'m fastd_peer \<Rightarrow> 'm fastd_peer" where
  "fastd_peer_reset peer = peer\<lparr>established := False, protocol_state := None\<rparr>"

text \<open>
  Primitives for the evaluations below.  The hash returns its input, so that two session
  secrets are equal exactly when the hashed strings are; scalars and points are byte
  strings that are added and multiplied byte by byte.
\<close>

definition test_crypto :: "bytes crypto" where
  "test_crypto =
     \<lparr>crypto_hash_sha256 = (\<lambda>msg. msg),
      crypto_auth_hmacsha256 = (\<lambda>msg key. map2 (XOR) (take 32 msg) (take 32 key)),
      crypto_auth_hmacsha256_verify =
        (\<lambda>tag msg key. take 32 tag = map2 (XOR) (take 32 msg) (take 32 key)),
      ecc_25519_secret_sanitize = (\<lambda>s. s),
      ecc_25519_secret_mult = (\<lambda>a b. map2 (*) a b),
      ecc_25519_secret_add = (\<lambda>a b. map2 (+) a b),
      ecc_25519_scalarmult_base = (\<lambda>s. s),
      ecc_25519_scalarmult = (\<lambda>s p. map2 (*) s p),
      ecc_25519_add = (\<lambda>p q. map2 (+) p q),
      ecc_25519_load = (\<lambda>k. k),
      ecc_25519_store = (\<lambda>p. p),
      ecc_25519_is_identity = (\<lambda>p. p = replicate 32 0)\<rparr>"

definition test_key :: "byte \<Rightarrow> bytes" where
  "test_key b = replicate 32 b"

definition local_conf :: fastd_protocol_config where
  "local_conf = \<lparr>conf_secret_key = test_key 1, conf_public_key = test_key 1\<rparr>"

definition remote_conf :: fastd_peer_config where
  "remote_conf = \<lparr>pc_id = 1, pc_public_key = test_key 2, pc_floating = False, pc_dynamic = False,
                   pc_matches_dynamic = (\<lambda>a. False)\<rparr>"

definition local_hkey :: handshake_key where
  "local_hkey = \<lparr>hk_preferred_till = \<lparr>tv_sec = 110, tv_nsec = 0\<rparr>,
                 hk_valid_till = \<lparr>tv_sec = 125, tv_nsec = 0\<rparr>,
                 hk_secret_key = test_key 3, hk_public_key = test_key 3\<rparr>"

definition test_handshake :: "nat \<Rightarrow> (record_type \<Rightarrow> bytes option) \<Rightarrow> fastd_handshake" where
  "test_handshake ty recs =
     \<lparr>hs_type = ty,
      records = (\<lambda>r. case recs r of None \<Rightarrow> \<lparr>rec_length = 0, rec_data = []\<rparr>
                               | Some v \<Rightarrow> \<lparr>rec_length = length v, rec_data = v\<rparr>)\<rparr>"

definition reply_records :: "record_type \<Rightarrow> bytes option" where
  "reply_records =
     [RECORD_SENDER_KEY \<mapsto> test_key 2, RECORD_RECEIPIENT_KEY \<mapsto> test_key 1,
      RECORD_SENDER_HANDSHAKE_KEY \<mapsto> test_key 4, RECORD_RECEIPIENT_HANDSHAKE_KEY \<mapsto> test_key 3,
      RECORD_T \<mapsto> test_key 6]"


definition finish_run :: "test_state fastd_peer list \<times> test_state event list" where
  "finish_run = finish_handshake test_crypto (ctx_at 100) test_method 9 True fastd_peer_reset
     local_conf [test_peer no_session no_session] 8 remote_conf local_hkey (test_key 4)
     (test_handshake 2 reply_records)"

definition finish_sigma :: bytes where
  "finish_sigma = ecc_25519_store test_crypto
     (initiator_work test_crypto local_conf remote_conf local_hkey (test_key 4))"

definition confirmed_peer :: "test_state fastd_peer" where
  "confirmed_peer = test_peer no_session (test_session True True 2)"

definition test_pool :: fastd_protocol_state where
  "test_pool = \<lparr>prev_handshake_key = zero_handshake_key, handshake_key = local_hkey\<rparr>"

definition handle_run ::
    "fastd_protocol_state option \<Rightarrow> fastd_peer_config option \<Rightarrow> fastd_handshake
       \<Rightarrow> fastd_protocol_state \<times> test_state fastd_peer list \<times> test_state event list" where
  "handle_run pool peer_conf h =
     protocol_handshake_handle test_crypto (ctx_at 100) test_method 9 True fastd_peer_reset
       (test_key 9) local_conf [remote_conf] pool [test_peer no_session no_session] 8 peer_conf h"

section \<open>Properties of the record layer\<close>

subsection \<open>The age is the halved little-endian difference\<close>

lemma nonce_diff_le_value:
  assumes "length rn = COMMON_NONCEBYTES" and "length nonce = COMMON_NONCEBYTES"
  shows "nonce_diff rn nonce = le_value rn - le_value nonce"
proof -
  obtain r0 r1 r2 r3 r4 r5 where rn: "rn = [r0, r1, r2, r3, r4, r5]"
    using assms(1) by (auto simp: COMMON_NONCEBYTES_def length_Suc_conv eval_nat_numeral)
  obtain n0 n1 n2 n3 n4 n5 where nn: "nonce = [n0, n1, n2, n3, n4, n5]"
    using assms(2) by (auto simp: COMMON_NONCEBYTES_def length_Suc_conv eval_nat_numeral)
  show ?thesis
    unfolding rn nn nonce_diff_def COMMON_NONCEBYTES_def
    by (simp add: upt_rec)
qed

lemma byte_parity: "even (uint (b::byte)) \<longleftrightarrow> b AND 1 = 0"
proof -
  have "even (uint b) \<longleftrightarrow> even b"
    using bit_uint_iff [of b 0] by (simp add: bit_0)
  then show ?thesis
    by (simp add: and_one_eq even_iff_mod_2_eq_zero)
qed

lemma le_value_parity: "even (le_value (b # bs)) \<longleftrightarrow> b AND 1 = 0"
  by (simp add: byte_parity [symmetric])

lemma same_parity_even_diff:
  assumes "length rn = COMMON_NONCEBYTES" and "length nonce = COMMON_NONCEBYTES"
    and "(nonce ! 0) AND 1 = (rn ! 0) AND 1"
  shows "even (le_value rn - le_value nonce)"
proof -
  obtain r rs where rn: "rn = r # rs"
    using assms(1) by (cases rn) (auto simp: COMMON_NONCEBYTES_def)
  obtain n ns where nn: "nonce = n # ns"
    using assms(2) by (cases nonce) (auto simp: COMMON_NONCEBYTES_def)
  have "even (le_value rn) \<longleftrightarrow> even (le_value nonce)"
    unfolding rn nn le_value_parity using assms(3) by (simp add: rn nn)
  then show ?thesis by simp
qed

lemma sdiv_even: "even (k::int) \<Longrightarrow> k sdiv 2 = k div 2"
  by (auto simp: signed_divide_int_def sgn_if elim!: evenE)

subsection \<open>The time threshold\<close>

text \<open>
  Up to \<^verbatim>\<open>reorder_time = 2147483\<close> the 32-bit product is the product; beyond, it wraps: at
  3000000 the threshold is negative, and every candidate that is not newer is rejected.
\<close>

lemma reorder_time_ms_exact:
  assumes "0 \<le> reorder_time ctx" and "reorder_time ctx * 1000 < 2 ^ 31"
  shows "reorder_time_ms ctx = reorder_time ctx * 1000"
proof -
  have "reorder_time_ms ctx = sint (word_of_int (reorder_time ctx * 1000) :: 32 word)"
    by (simp add: reorder_time_ms_def)
  also have "\<dots> = signed_take_bit (LENGTH(32) - 1) (reorder_time ctx * 1000)"
    by (rule sint_sbintrunc')
  also have "\<dots> = reorder_time ctx * 1000"
    using assms by (simp add: signed_take_bit_int_eq_self)
  finally show ?thesis .
qed

lemma reorder_time_ms_wraps:
  "reorder_time_ms ((ctx_at 100)\<lparr>reorder_time := 3000000\<rparr>) = - 1294967296"
  by (simp add: reorder_time_ms_def)

subsection \<open>The in-window branches of the reorder check\<close>

lemma to_u64_power: "to_u64 (2 ^ n) = push_bit n 1"
  by (simp add: to_u64_def)

text \<open>
  For an age from 0 to 31 no shift is out of range, and the function does what the
  specification describes, whatever the target: age 0 and a set bit \<open>age - 1\<close> are rejected
  with the state unchanged, otherwise bit \<open>age - 1\<close> is set and the nonce accepted.
\<close>

lemma reorder_check_in_window:
  assumes "0 \<le> age" and "age \<le> 31"
  shows "fastd_method_reorder_check t ctx sess nonce age =
           Some (spec_reorder_check ctx sess nonce age)"
proof (cases "age = 0")
  case True
  then show ?thesis by (simp add: fastd_method_reorder_check_def spec_reorder_check_def)
next
  case False
  with assms have r: "0 \<le> age - 1" "age - 1 < 31" by simp_all
  have s: "shl_int_1 t (age - 1) = Some (2 ^ nat (age - 1))"
    using r by (simp add: shl_int_1_def)
  show ?thesis
    using False assms(1)
    by (simp add: fastd_method_reorder_check_def spec_reorder_check_def s to_u64_power
        bit_iff_and_push_bit_not_eq_0 set_bit_eq_or)
qed

subsection \<open>Claims on the record layer\<close>

text \<open>
  C1 (at most once per nonce).  On a fresh responder session the nonces 3, 5, 7 arrive in
  order and nonce 3 is then replayed.  Every newer nonce takes the branch \<^verbatim>\<open>age < 0\<close>, whose
  first statement shifts by the negative age: under ISO C the very first packet is
  undefined behaviour, and with the count masked as on x86-64 the bitmap keeps only the
  immediate predecessor, so the replayed nonce 3 is accepted a second time.
\<close>

theorem replayed_nonce_accepted:
  "check_nonces Masked_Count (ctx_at 100) responder_session
       [nonce_of 3, nonce_of 5, nonce_of 7, nonce_of 3] = Some [True, True, True, True] \<and>
   check_nonces Iso_C (ctx_at 100) responder_session [nonce_of 3] = None"
  by code_simp

text \<open>
  C2 (the reorder check follows the specified algorithm for every age).  At age \<open>-1\<close> with
  bit 2 of the bitmap set, the specified algorithm yields the bitmap 3 (bit 2 moved to
  bit 1, bit 0 set).  The function evaluates \<^verbatim>\<open>receive_reorder_seen >>= age\<close> with a
  negative count: undefined under ISO C; with the count masked the bitmap is shifted by 63
  and the result is 1.
\<close>

theorem reorder_check_newer_diverges:
  "fastd_method_reorder_check Iso_C (ctx_at 100) seen4 (nonce_of 3) (- 1) = None \<and>
   map_option (receive_reorder_seen \<circ> snd)
     (fastd_method_reorder_check Masked_Count (ctx_at 100) seen4 (nonce_of 3) (- 1)) = Some 1 \<and>
   receive_reorder_seen (snd (spec_reorder_check (ctx_at 100) seen4 (nonce_of 3) (- 1))) = 3"
  by code_simp

text \<open>
  C3 as stated fails in both directions.  On a fresh responder session whose
  \<^verbatim>\<open>receive_last\<close> lies 100 seconds back, the newer nonce 3 is accepted by the function,
  although the last accepted packet is not within \<open>reorder_time\<close>.  On a session that last
  accepted nonce 7 as long ago, the older nonce 3 (two positions back, well within
  \<open>reorder_count\<close>) is rejected.
\<close>

theorem nonce_valid_newer_ignores_time:
  "fst (fastd_method_is_nonce_valid (ctx_at 100) responder_session (nonce_of 3) 0) \<and>
   \<not> spec_is_nonce_valid (ctx_at 100) responder_session (nonce_of 3) \<and>
   \<not> fst (fastd_method_is_nonce_valid (ctx_at 100) idle_session (nonce_of 3) 0) \<and>
   spec_is_nonce_valid (ctx_at 100) idle_session (nonce_of 3)"
  by code_simp

text \<open>
  C3, amended.  \<^verbatim>\<open>fastd_method_is_nonce_valid\<close> accepts a candidate exactly when its low
  bit equals that of \<^verbatim>\<open>receive_nonce\<close> and either the age is negative (the candidate is
  newer: no further condition), or \<^verbatim>\<open>timespec_diff(now, receive_last)\<close> is at most
  \<^verbatim>\<open>(int)reorder_time*1000\<close>, a product in 32-bit \<^verbatim>\<open>int\<close>, and the age is at most
  \<^verbatim>\<open>reorder_count\<close>.  The threshold is \<^verbatim>\<open>reorder_time*1000\<close> as long as that is below
  \<open>2 ^ 31\<close>, for a \<^verbatim>\<open>reorder_time\<close> that is not negative.  With matching parity the age is
  exactly half the little-endian difference \<^verbatim>\<open>receive_nonce - nonce\<close>.
\<close>

theorem is_nonce_valid_iff:
  assumes "length (receive_nonce sess) = COMMON_NONCEBYTES"
    and "length nonce = COMMON_NONCEBYTES"
  shows "(fst (fastd_method_is_nonce_valid ctx sess nonce age0) \<longleftrightarrow>
            (nonce ! 0) AND 1 = (receive_nonce sess ! 0) AND 1 \<and>
            (snd (fastd_method_is_nonce_valid ctx sess nonce age0) < 0 \<or>
             (timespec_diff ctx (now ctx) (receive_last sess) \<le> reorder_time_ms ctx \<and>
              snd (fastd_method_is_nonce_valid ctx sess nonce age0) \<le> reorder_count ctx))) \<and>
         ((nonce ! 0) AND 1 = (receive_nonce sess ! 0) AND 1 \<longrightarrow>
            2 * snd (fastd_method_is_nonce_valid ctx sess nonce age0) =
              le_value (receive_nonce sess) - le_value nonce) \<and>
         (0 \<le> reorder_time ctx \<and> reorder_time ctx * 1000 < 2 ^ 31 \<longrightarrow>
            reorder_time_ms ctx = reorder_time ctx * 1000)"
proof -
  have d: "nonce_diff (receive_nonce sess) nonce =
             le_value (receive_nonce sess) - le_value nonce"
    using assms by (rule nonce_diff_le_value)
  have t: "0 \<le> reorder_time ctx \<and> reorder_time ctx * 1000 < 2 ^ 31 \<longrightarrow>
             reorder_time_ms ctx = reorder_time ctx * 1000"
    using reorder_time_ms_exact [of ctx] by blast
  show ?thesis
  proof (cases "(nonce ! 0) AND 1 = (receive_nonce sess ! 0) AND 1")
    case False
    then show ?thesis using t by (simp add: fastd_method_is_nonce_valid_def)
  next
    case True
    have ev: "even (le_value (receive_nonce sess) - le_value nonce)"
      using assms True by (rule same_parity_even_diff)
    have "2 * ((le_value (receive_nonce sess) - le_value nonce) sdiv 2) =
            le_value (receive_nonce sess) - le_value nonce"
      using ev by (simp add: sdiv_even)
    with True t show ?thesis
      by (auto simp: fastd_method_is_nonce_valid_def d Let_def)
  qed
qed

theorem is_nonce_valid_iff_witness:
  "length (receive_nonce responder_session) = COMMON_NONCEBYTES \<and>
   length (nonce_of 3) = COMMON_NONCEBYTES \<and>
   (nonce_of 3 ! 0) AND 1 = (receive_nonce responder_session ! 0) AND 1 \<and>
   fst (fastd_method_is_nonce_valid (ctx_at 100) responder_session (nonce_of 3) 0) \<and>
   2 * snd (fastd_method_is_nonce_valid (ctx_at 100) responder_session (nonce_of 3) 0) =
     le_value (receive_nonce responder_session) - le_value (nonce_of 3) \<and>
   0 \<le> reorder_time (ctx_at 100) \<and> reorder_time (ctx_at 100) * 1000 < 2 ^ 31 \<and>
   reorder_time_ms (ctx_at 100) = 10000"
proof -
  have h1: "length (receive_nonce responder_session) = COMMON_NONCEBYTES"
    by (simp add: responder_session_def fastd_method_common_init_def zero_nonce_def Let_def)
  have h2: "length (nonce_of 3) = COMMON_NONCEBYTES"
    by (simp add: nonce_of_def COMMON_NONCEBYTES_def)
  have h3: "(nonce_of 3 ! 0) AND 1 = (receive_nonce responder_session ! 0) AND 1"
    by code_simp
  have h4: "snd (fastd_method_is_nonce_valid (ctx_at 100) responder_session (nonce_of 3) 0) < 0"
    by code_simp
  have h5: "0 \<le> reorder_time (ctx_at 100)" "reorder_time (ctx_at 100) * 1000 < 2 ^ 31"
    "reorder_time (ctx_at 100) = 10"
    by (simp_all add: ctx_at_def)
  show ?thesis
    using is_nonce_valid_iff [OF h1 h2, of "ctx_at 100" 0] h1 h2 h3 h4 h5 by simp
qed

section \<open>Properties of send and receive\<close>

lemma owned_at_end_append:
  "owned_at_end owned (xs @ ys) =
     (case owned_at_end owned xs of None \<Rightarrow> None | Some owned' \<Rightarrow> owned_at_end owned' ys)"
  by (induction xs arbitrary: owned) (auto split: option.splits)

lemma decrypt_slots_append: "decrypt_slots (xs @ ys) = decrypt_slots xs @ decrypt_slots ys"
  by (induction xs rule: decrypt_slots.induct) simp_all


lemma decrypt_slots_none:
  "(\<And>sl b out. Decrypt sl b out \<notin> set evs) \<Longrightarrow> decrypt_slots evs = []"
  by (induction evs rule: decrypt_slots.induct) auto

lemma refresh_shape:
  "check_session_refresh m ps = (ps', evs) \<Longrightarrow>
     (evs = [] \<or> evs = [Schedule_handshake 0]) \<and>
     handshakes_cleaned (session ps') = handshakes_cleaned (session ps) \<and>
     method_state (session ps') = method_state (session ps) \<and>
     old_session ps' = old_session ps"
  by (auto simp: check_session_refresh_def split: if_splits)

text \<open>The buffer handed to \<^verbatim>\<open>protocol_send\<close> is transmitted or freed, once.\<close>

lemma send_state_owned:
  "protocol_send_state ctx m addr ps buffer = (ps', evs) \<Longrightarrow>
   owned_at_end (buffer # owned) evs = Some owned"
  by (auto simp: protocol_send_state_def owned_at_end_append check_session_refresh_def
        give_up_def Let_def
      split: prod.splits option.splits if_splits)

lemma send_state_shape:
  assumes "protocol_send_state ctx m addr ps buffer = (ps', evs)"
  shows "Decrypt sl' b' out' \<notin> set evs"
    and "Handle_receive b \<notin> set evs"
    and "handshakes_cleaned (session ps') = handshakes_cleaned (session ps)"
    and "method_state (old_session ps') = None \<longleftrightarrow> method_state (old_session ps) = None"
    and "Buffer_free buffer \<in> set evs \<or> (\<exists>sl out. Encrypt sl buffer out \<in> set evs)"
    and "is_session_valid m (session ps) \<Longrightarrow> \<exists>sl out. Encrypt sl buffer out \<in> set evs"
    and "Encrypt sl'' b'' (Some sb) \<in> set evs \<Longrightarrow> Send addr sb \<in> set evs"
  using assms
  by (auto simp: protocol_send_state_def check_session_refresh_def update_method_state_def Let_def
      split: prod.splits option.splits if_splits slot.splits)

lemma recv_current_owned:
  "recv_current ctx m fresh addr ps buffer = (ps', out, evs) \<Longrightarrow>
   owned_at_end [buffer] evs = Some [case out of None \<Rightarrow> buffer | Some rb \<Rightarrow> rb]"
  unfolding recv_current_def
  by (auto simp: owned_at_end_append check_session_refresh_def give_up_def Let_def
      split: prod.splits option.splits if_splits dest!: send_state_owned)

lemma recv_current_events:
  assumes "recv_current ctx m fresh addr ps buffer = (ps', out, evs)"
  shows "\<exists>rest. evs = Decrypt Current buffer out # rest \<and>
           (\<forall>sl b out. Decrypt sl b out \<notin> set rest) \<and> (\<forall>b. Handle_receive b \<notin> set rest) \<and>
           (\<forall>sl b sb. Encrypt sl b (Some sb) \<in> set rest \<longrightarrow> Send addr sb \<in> set rest)"
  using assms
  by (auto simp: recv_current_def Let_def check_session_refresh_def
      split: prod.splits option.splits if_splits
      dest: send_state_shape(1) send_state_shape(2) send_state_shape(7))

lemma recv_current_success:
  assumes "recv_current ctx m fresh addr ps buffer = (ps', Some rb, evs)"
  shows "handshakes_cleaned (session ps')" and "method_state (old_session ps') = None"
    and "method_state (old_session ps) \<noteq> None \<Longrightarrow> \<exists>st. Session_free st \<in> set evs"
    and "\<not> handshakes_cleaned (session ps) \<Longrightarrow> Delete_peer_handshakes \<in> set evs"
    and "\<not> handshakes_cleaned (session ps) \<Longrightarrow>
         session_is_initiator m (map_option (fst (decrypt m (method_state (session ps)) buffer))
                                  (method_state (session ps))) \<Longrightarrow>
         Buffer_alloc (fastd_buffer_alloc fresh 0 (min_encrypt_head_space m) 0) \<in> set evs \<and>
         (Buffer_free (fastd_buffer_alloc fresh 0 (min_encrypt_head_space m) 0) \<in> set evs \<or>
            (\<exists>sl out. Encrypt sl (fastd_buffer_alloc fresh 0 (min_encrypt_head_space m) 0) out \<in> set evs)) \<and>
         (session_is_valid m (map_option (fst (decrypt m (method_state (session ps)) buffer))
                                  (method_state (session ps))) \<longrightarrow>
            (\<exists>sl out. Encrypt sl (fastd_buffer_alloc fresh 0 (min_encrypt_head_space m) 0) out \<in> set evs))"
proof -
  define empty where "empty = fastd_buffer_alloc fresh 0 (min_encrypt_head_space m) 0"
  obtain f where d: "decrypt m (method_state (session ps)) buffer = (f, Some rb)"
    using assms by (auto simp: recv_current_def Let_def split: prod.splits option.splits)
  define ps2 where "ps2 = update_method_state Current f ps"
  define psc where "psc = ps2\<lparr>session := (session ps2)\<lparr>handshakes_cleaned := True\<rparr>\<rparr>"
  obtain ps3 ev3 where s3: "(if \<not> handshakes_cleaned (session ps2) then
                   if session_is_initiator m (method_state (session psc)) then
                     (case protocol_send_state ctx m addr psc empty of
                        (ps', ev) \<Rightarrow> (ps', [Delete_peer_handshakes, Buffer_alloc empty] @ ev))
                   else (psc, [Delete_peer_handshakes])
                 else (ps2, [])) = (ps3, ev3)"
    by (cases "(if \<not> handshakes_cleaned (session ps2) then
                   if session_is_initiator m (method_state (session psc)) then
                     (case protocol_send_state ctx m addr psc empty of
                        (ps', ev) \<Rightarrow> (ps', [Delete_peer_handshakes, Buffer_alloc empty] @ ev))
                   else (psc, [Delete_peer_handshakes])
                 else (ps2, []))") auto
  define ps4 where "ps4 = (if method_state (old_session ps3) \<noteq> None
      then ps3\<lparr>old_session := (old_session ps3)\<lparr>method_state := None\<rparr>\<rparr> else ps3)"
  define ev4 where "ev4 = (if method_state (old_session ps3) \<noteq> None
      then [Session_free (method_state (old_session ps3)) :: 'a event] else [])"
  obtain ps5 ev5 where s5: "check_session_refresh m ps4 = (ps5, ev5)"
    by (cases "check_session_refresh m ps4") auto
  have r: "ps' = ps5" "evs = [Decrypt Current buffer (Some rb)] @ ev3 @ ev4 @ ev5"
    using assms s3 s5
    by (auto simp: recv_current_def Let_def d ps2_def psc_def ps4_def ev4_def empty_def
        split: prod.splits if_splits)
  have c3: "handshakes_cleaned (session ps3)"
    and o3: "method_state (old_session ps3) = None \<longleftrightarrow> method_state (old_session ps) = None"
    using s3
    by (auto simp: psc_def ps2_def update_method_state_def
        split: if_splits prod.splits dest: send_state_shape(3) send_state_shape(4))
  have c4: "handshakes_cleaned (session ps4)" and o4: "method_state (old_session ps4) = None"
    using c3 by (auto simp: ps4_def)
  from refresh_shape [OF s5] c4 o4
  show "handshakes_cleaned (session ps')" and "method_state (old_session ps') = None"
    by (simp_all add: r)
  show "\<exists>st. Session_free st \<in> set evs" if "method_state (old_session ps) \<noteq> None"
    using that o3 by (auto simp: r ev4_def)
  have cl: "handshakes_cleaned (session ps2) = handshakes_cleaned (session ps)"
    and ms: "method_state (session psc) = map_option f (method_state (session ps))"
    by (simp_all add: ps2_def psc_def update_method_state_def)
  show "Delete_peer_handshakes \<in> set evs" if "\<not> handshakes_cleaned (session ps)"
    using that s3 cl by (auto simp: r split: if_splits prod.splits)
  show "Buffer_alloc (fastd_buffer_alloc fresh 0 (min_encrypt_head_space m) 0) \<in> set evs \<and>
         (Buffer_free (fastd_buffer_alloc fresh 0 (min_encrypt_head_space m) 0) \<in> set evs \<or>
            (\<exists>sl out. Encrypt sl (fastd_buffer_alloc fresh 0 (min_encrypt_head_space m) 0) out \<in> set evs)) \<and>
         (session_is_valid m (map_option (fst (decrypt m (method_state (session ps)) buffer))
                                  (method_state (session ps))) \<longrightarrow>
            (\<exists>sl out. Encrypt sl (fastd_buffer_alloc fresh 0 (min_encrypt_head_space m) 0) out \<in> set evs))"
    if "\<not> handshakes_cleaned (session ps)"
      and "session_is_initiator m (map_option (fst (decrypt m (method_state (session ps)) buffer))
                                  (method_state (session ps)))"
  proof -
    obtain psx evx where sx: "protocol_send_state ctx m addr psc empty = (psx, evx)"
      by (cases "protocol_send_state ctx m addr psc empty") auto
    have e3: "ev3 = [Delete_peer_handshakes, Buffer_alloc empty] @ evx"
      using s3 that cl ms sx by (simp add: d)
    have v: "is_session_valid m (session psc) \<longleftrightarrow>
        session_is_valid m (map_option f (method_state (session ps)))"
      by (simp add: is_session_valid_def ms)
    show ?thesis
      using send_state_shape(5) [OF sx] send_state_shape(6) [OF sx] v
      by (auto simp: r e3 d empty_def [symmetric])
  qed
qed

text \<open>Once the previous session is freed, no later packet is decrypted with it.\<close>

lemma no_decrypt_on_freed_session:
  assumes "protocol_state peer = Some ps" and "method_state (old_session ps) = None"
    and "\<not> session_is_valid m None"
  shows "Previous \<notin> set (decrypt_slots (snd (protocol_handle_recv ctx m fresh peer buffer)))"
proof -
  have "decrypt_slots evs = [Current]"
    if "recv_current ctx m fresh (address peer) ps buffer = (ps', out, evs)" for ps' out evs
    using recv_current_events [OF that] by (auto simp: decrypt_slots_none)
  then show ?thesis
    using assms
    by (auto simp: protocol_handle_recv_def is_session_valid_def Let_def decrypt_slots_append
        split: prod.splits option.splits)
qed


text \<open>
  C4.  For every input, method and peer state, the buffer handed to
  \<^verbatim>\<open>protocol_handle_recv\<close> and the buffer handed to \<^verbatim>\<open>protocol_send\<close> are freed or handed
  off (delivered upward, transmitted) exactly once on every path, the error branches
  included; so is the empty confirmation packet allocated on the way.  A successful
  \<^verbatim>\<open>decrypt\<close> or \<^verbatim>\<open>encrypt\<close> turns the input buffer into the output buffer.
\<close>

theorem buffers_exactly_once:
  "exactly_once buffer (snd (protocol_handle_recv ctx m fresh peer buffer)) \<and>
   exactly_once buffer (snd (protocol_send ctx m peer buffer))"
proof
  show "exactly_once buffer (snd (protocol_send ctx m peer buffer))"
    by (auto simp: exactly_once_def protocol_send_def give_up_def
        split: option.splits prod.splits dest!: send_state_owned [where owned = "[]"])
next
  show "exactly_once buffer (snd (protocol_handle_recv ctx m fresh peer buffer))"
    unfolding exactly_once_def protocol_handle_recv_def
    by (auto simp: owned_at_end_append give_up_def Let_def
        split: prod.splits option.splits if_splits dest!: recv_current_owned)
qed

theorem buffers_exactly_once_witness:
  "exactly_once (test_buffer 2 0)
     (snd (protocol_handle_recv (ctx_at 100) test_method 9
        (test_peer (test_session True True 1) (test_session False True 2)) (test_buffer 2 0))) \<and>
   exactly_once (test_buffer 2 5)
     (snd (protocol_send (ctx_at 100) test_method
        (test_peer no_session (test_session False True 2)) (test_buffer 2 5)))"
  using buffers_exactly_once [of "test_buffer 2 0" "ctx_at 100" test_method 9
      "test_peer (test_session True True 1) (test_session False True 2)"]
    buffers_exactly_once [of "test_buffer 2 5" "ctx_at 100" test_method 9
      "test_peer no_session (test_session False True 2)"]
  by simp




text \<open>
  C7 as stated fails for an established peer whose current session is not valid (it has
  expired): the packet is freed and no decryption is attempted, neither with the previous
  nor with the current session.
\<close>

theorem no_decrypt_without_valid_session:
  "established (test_peer no_session expired_session) \<and>
   snd (protocol_handle_recv (ctx_at 100) test_method 9 (test_peer no_session expired_session)
          (test_buffer 2 5)) = [Buffer_free (test_buffer 2 5)] \<and>
   decrypt_slots (snd (protocol_handle_recv (ctx_at 100) test_method 9
          (test_peer no_session expired_session) (test_buffer 2 5))) = []"
  by code_simp

text \<open>
  The receive path for an established peer with a valid current session, and the path
  without one.
\<close>

lemma recv_with_valid_session:
  assumes est: "established peer" and st: "protocol_state peer = Some ps"
    and val: "is_session_valid m (session ps)"
    and run: "protocol_handle_recv ctx m fresh peer buffer = (peer', evs)"
  shows "decrypt_slots evs =
           (if is_session_valid m (old_session ps) then
              (case snd (decrypt m (method_state (old_session ps)) buffer) of
                 Some rb \<Rightarrow> [Previous]
               | None \<Rightarrow> [Previous, Current])
            else [Current]) \<and>
         (\<forall>rb. Decrypt Current buffer (Some rb) \<in> set evs \<longrightarrow>
            (\<exists>ps'. protocol_state peer' = Some ps' \<and> handshakes_cleaned (session ps') \<and>
                   method_state (old_session ps') = None) \<and>
            (method_state (old_session ps) \<noteq> None \<longrightarrow> (\<exists>st. Session_free st \<in> set evs)) \<and>
            (\<not> handshakes_cleaned (session ps) \<longrightarrow>
               Delete_peer_handshakes \<in> set evs \<and>
               (session_is_initiator m
                   (map_option (fst (decrypt m (method_state (session ps)) buffer))
                      (method_state (session ps))) \<longrightarrow>
                  buf_len (fastd_buffer_alloc fresh 0 (min_encrypt_head_space m) 0) = 0 \<and>
                  Buffer_alloc (fastd_buffer_alloc fresh 0 (min_encrypt_head_space m) 0) \<in> set evs \<and>
                  (Buffer_free (fastd_buffer_alloc fresh 0 (min_encrypt_head_space m) 0) \<in> set evs \<or>
                     (\<exists>sl out. Encrypt sl (fastd_buffer_alloc fresh 0 (min_encrypt_head_space m) 0) out
                        \<in> set evs)) \<and>
                  (session_is_valid m
                      (map_option (fst (decrypt m (method_state (session ps)) buffer))
                         (method_state (session ps))) \<longrightarrow>
                     (\<exists>sl out. Encrypt sl (fastd_buffer_alloc fresh 0 (min_encrypt_head_space m) 0) out
                        \<in> set evs)))) \<and>
            (\<not> session_is_valid m None \<longrightarrow>
               (\<forall>ctx' fresh' buffer'.
                  Previous \<notin> set (decrypt_slots
                    (snd (protocol_handle_recv ctx' m fresh' peer' buffer')))))) \<and>
         (\<forall>sl rb. Decrypt sl buffer (Some rb) \<in> set evs \<longrightarrow>
            (if buf_len rb = 0
             then Buffer_free rb \<in> set evs \<and> (\<forall>b. Handle_receive b \<notin> set evs)
             else Handle_receive rb \<in> set evs)) \<and>
         (\<forall>sl b sb. Encrypt sl b (Some sb) \<in> set evs \<longrightarrow> Send (address peer) sb \<in> set evs)"
proof -
  obtain ps1 ok1 and ev1 :: "'a event list" where s1:
    "(if is_session_valid m (old_session ps) then
        (case decrypt m (method_state (old_session ps)) buffer of
           (f, out) \<Rightarrow> (update_method_state Previous f ps, out, [Decrypt Previous buffer out]))
      else (ps, None, [])) = (ps1, ok1, ev1)"
    by (rule prod_cases3)
  obtain ps2 ok2 ev2 where s2:
    "(case ok1 of Some recv_buffer \<Rightarrow> (ps1, ok1, [])
      | None \<Rightarrow> recv_current ctx m fresh (address peer) ps1 buffer) = (ps2, ok2, ev2)"
    by (rule prod_cases3)
  have p1: "handshakes_cleaned (session ps1) = handshakes_cleaned (session ps)"
    "method_state (session ps1) = method_state (session ps)"
    "method_state (old_session ps1) = None \<longleftrightarrow> method_state (old_session ps) = None"
    "ok1 = (if is_session_valid m (old_session ps)
            then snd (decrypt m (method_state (old_session ps)) buffer) else None)"
    "ev1 = (if is_session_valid m (old_session ps) then [Decrypt Previous buffer ok1] else [])"
    using s1 by (auto simp: update_method_state_def split: if_splits prod.splits)
  have r: "peer' = peer\<lparr>protocol_state := Some ps2\<rparr>"
    "evs = ev1 @ ev2 @ (case ok2 of None \<Rightarrow> [Buffer_free buffer]
       | Some recv_buffer \<Rightarrow> [Peer_seen] @
           (if buf_len recv_buffer \<noteq> 0 then [Handle_receive recv_buffer]
            else [Buffer_free recv_buffer]))"
    using run est st val s1 s2
    by (auto simp: protocol_handle_recv_def Let_def split: option.splits)
  show ?thesis
  proof (cases ok1)
    case (Some rb1)
    then have "ps2 = ps1" "ok2 = Some rb1" "ev2 = []" using s2 by auto
    with Some p1 show ?thesis
      by (auto simp: r split: if_splits)
  next
    case None
    then have rc: "recv_current ctx m fresh (address peer) ps1 buffer = (ps2, ok2, ev2)"
      using s2 by simp
    from recv_current_events [OF rc] obtain rest where
      ev2: "ev2 = Decrypt Current buffer ok2 # rest"
      and nd: "\<And>sl b out. Decrypt sl b out \<notin> set rest"
      and nh: "\<And>b. Handle_receive b \<notin> set rest"
      and es: "\<And>sl b sb. Encrypt sl b (Some sb) \<in> set rest \<Longrightarrow> Send (address peer) sb \<in> set rest"
      by blast
    have slots: "decrypt_slots ev2 = [Current]"
      by (simp add: ev2 decrypt_slots_none nd)
    have A: "decrypt_slots evs =
           (if is_session_valid m (old_session ps) then
              (case snd (decrypt m (method_state (old_session ps)) buffer) of
                 Some rb \<Rightarrow> [Previous]
               | None \<Rightarrow> [Previous, Current])
            else [Current])"
      using None p1(4,5) slots
      by (auto simp: r decrypt_slots_append split: option.splits if_splits)
    have mem: "Decrypt sl buffer (Some rb) \<in> set evs \<longleftrightarrow> sl = Current \<and> ok2 = Some rb" for sl rb
      using None p1(5) nd by (auto simp: r ev2 split: option.splits if_splits)
    have C: "if buf_len rb = 0
             then Buffer_free rb \<in> set evs \<and> (\<forall>b. Handle_receive b \<notin> set evs)
             else Handle_receive rb \<in> set evs"
      if "Decrypt sl buffer (Some rb) \<in> set evs" for sl rb
    proof -
      from that have "ok2 = Some rb" by (simp add: mem)
      then show ?thesis
        using nh p1(5) by (auto simp: r ev2 split: if_splits)
    qed
    have B: "(\<exists>ps'. protocol_state peer' = Some ps' \<and> handshakes_cleaned (session ps') \<and>
                   method_state (old_session ps') = None) \<and>
            (method_state (old_session ps) \<noteq> None \<longrightarrow> (\<exists>st. Session_free st \<in> set evs)) \<and>
            (\<not> handshakes_cleaned (session ps) \<longrightarrow>
               Delete_peer_handshakes \<in> set evs \<and>
               (session_is_initiator m
                   (map_option (fst (decrypt m (method_state (session ps)) buffer))
                      (method_state (session ps))) \<longrightarrow>
                  buf_len (fastd_buffer_alloc fresh 0 (min_encrypt_head_space m) 0) = 0 \<and>
                  Buffer_alloc (fastd_buffer_alloc fresh 0 (min_encrypt_head_space m) 0) \<in> set evs \<and>
                  (Buffer_free (fastd_buffer_alloc fresh 0 (min_encrypt_head_space m) 0) \<in> set evs \<or>
                     (\<exists>sl out. Encrypt sl (fastd_buffer_alloc fresh 0 (min_encrypt_head_space m) 0) out
                        \<in> set evs)) \<and>
                  (session_is_valid m
                      (map_option (fst (decrypt m (method_state (session ps)) buffer))
                         (method_state (session ps))) \<longrightarrow>
                     (\<exists>sl out. Encrypt sl (fastd_buffer_alloc fresh 0 (min_encrypt_head_space m) 0) out
                        \<in> set evs)))) \<and>
            (\<not> session_is_valid m None \<longrightarrow>
               (\<forall>ctx' fresh' buffer'.
                  Previous \<notin> set (decrypt_slots
                    (snd (protocol_handle_recv ctx' m fresh' peer' buffer')))))"
      if "Decrypt Current buffer (Some rb) \<in> set evs" for rb
    proof -
      from that have ok2: "ok2 = Some rb" by (simp add: mem)
      note suc = recv_current_success [OF rc [unfolded ok2]]
      have sub: "set ev2 \<subseteq> set evs" by (auto simp: r)
      have 1: "\<exists>ps'. protocol_state peer' = Some ps' \<and> handshakes_cleaned (session ps') \<and>
                   method_state (old_session ps') = None"
        using suc(1,2) by (simp add: r)
      have 2: "method_state (old_session ps) \<noteq> None \<longrightarrow> (\<exists>st. Session_free st \<in> set evs)"
        using suc(3) p1(3) sub by auto
      have 3: "\<not> handshakes_cleaned (session ps) \<longrightarrow> Delete_peer_handshakes \<in> set evs"
        using suc(4) p1(1) sub by auto
      have 4: "\<not> handshakes_cleaned (session ps) \<Longrightarrow>
         session_is_initiator m (map_option (fst (decrypt m (method_state (session ps)) buffer))
                                  (method_state (session ps))) \<Longrightarrow>
         Buffer_alloc (fastd_buffer_alloc fresh 0 (min_encrypt_head_space m) 0) \<in> set ev2 \<and>
         (Buffer_free (fastd_buffer_alloc fresh 0 (min_encrypt_head_space m) 0) \<in> set ev2 \<or>
            (\<exists>sl out. Encrypt sl (fastd_buffer_alloc fresh 0 (min_encrypt_head_space m) 0) out \<in> set ev2)) \<and>
         (session_is_valid m (map_option (fst (decrypt m (method_state (session ps)) buffer))
                                  (method_state (session ps))) \<longrightarrow>
            (\<exists>sl out. Encrypt sl (fastd_buffer_alloc fresh 0 (min_encrypt_head_space m) 0) out \<in> set ev2))"
        using suc(5) p1(1,2) by simp
      have 5: "\<not> session_is_valid m None \<longrightarrow>
               (\<forall>ctx' fresh' buffer'.
                  Previous \<notin> set (decrypt_slots
                    (snd (protocol_handle_recv ctx' m fresh' peer' buffer'))))"
        using no_decrypt_on_freed_session [of peer' ps2 m] suc(2) by (simp add: r)
      have 6: "buf_len (fastd_buffer_alloc fresh 0 (min_encrypt_head_space m) 0) = 0"
        by (simp add: fastd_buffer_alloc_def)
      show ?thesis
        using 1 2 3 4 5 6 sub by blast
    qed
    have D: "Send (address peer) sb \<in> set evs" if "Encrypt sl b (Some sb) \<in> set evs" for sl b sb
    proof -
      from that have "Encrypt sl b (Some sb) \<in> set rest"
        using p1(5) by (auto simp: r ev2 split: option.splits if_splits)
      then show ?thesis
        using es by (auto simp: r ev2)
    qed
    show ?thesis
      using A B C D by blast
  qed
qed

lemma recv_without_valid_session:
  assumes "protocol_state peer = None \<or>
           (\<exists>ps. protocol_state peer = Some ps \<and> \<not> is_session_valid m (session ps))"
    and "protocol_handle_recv ctx m fresh peer buffer = (peer', evs)"
  shows "(established peer \<longrightarrow> peer' = peer \<and> evs = [Buffer_free buffer]) \<and>
         decrypt_slots evs = []"
  using assms
  by (auto simp: protocol_handle_recv_def split: if_splits option.splits)

text \<open>
  C7, amended.  For an established peer, \<^verbatim>\<open>protocol_handle_recv\<close> frees the packet and
  decrypts nothing when the peer has no protocol state or its current session is not
  valid.  With a valid current session it
  \<^item> decrypts with the previous session first when that is valid, and with the current
    session when the previous one is not valid or fails;
  \<^item> after a successful decrypt with the current session leaves \<^verbatim>\<open>handshakes_cleaned\<close> set
    and the previous method state \<^verbatim>\<open>NULL\<close>, having called \<^verbatim>\<open>session_free\<close> if there was one;
    if \<^verbatim>\<open>handshakes_cleaned\<close> was not set before, it deletes the peer's scheduled
    handshakes and, if the local side is the initiator, allocates a zero-length buffer and
    hands it to \<^verbatim>\<open>protocol_send\<close> (which encrypts it when the current session is still
    valid, and whatever is encrypted is transmitted to the peer's address); and, provided
    the method reports a \<^verbatim>\<open>NULL\<close> state as not valid, no later call decrypts with the
    previous session;
  \<^item> frees a zero-length plaintext and delivers nothing upward, and delivers any other
    plaintext.
\<close>

theorem protocol_handle_recv_established:
  assumes est: "established peer"
    and run: "protocol_handle_recv ctx m fresh peer buffer = (peer', evs)"
  shows "(protocol_state peer = None \<or>
          (\<exists>ps. protocol_state peer = Some ps \<and> \<not> is_session_valid m (session ps)) \<longrightarrow>
            peer' = peer \<and> evs = [Buffer_free buffer]) \<and>
         (\<forall>ps. protocol_state peer = Some ps \<longrightarrow> is_session_valid m (session ps) \<longrightarrow>
            decrypt_slots evs =
               (if is_session_valid m (old_session ps) then
                  (case snd (decrypt m (method_state (old_session ps)) buffer) of
                     Some rb \<Rightarrow> [Previous]
                   | None \<Rightarrow> [Previous, Current])
                else [Current]) \<and>
             (\<forall>rb. Decrypt Current buffer (Some rb) \<in> set evs \<longrightarrow>
                (\<exists>ps'. protocol_state peer' = Some ps' \<and> handshakes_cleaned (session ps') \<and>
                       method_state (old_session ps') = None) \<and>
                (method_state (old_session ps) \<noteq> None \<longrightarrow> (\<exists>st. Session_free st \<in> set evs)) \<and>
                (\<not> handshakes_cleaned (session ps) \<longrightarrow>
                   Delete_peer_handshakes \<in> set evs \<and>
                   (session_is_initiator m
                       (map_option (fst (decrypt m (method_state (session ps)) buffer))
                          (method_state (session ps))) \<longrightarrow>
                      buf_len (fastd_buffer_alloc fresh 0 (min_encrypt_head_space m) 0) = 0 \<and>
                      Buffer_alloc (fastd_buffer_alloc fresh 0 (min_encrypt_head_space m) 0) \<in> set evs \<and>
                      (Buffer_free (fastd_buffer_alloc fresh 0 (min_encrypt_head_space m) 0) \<in> set evs \<or>
                         (\<exists>sl out. Encrypt sl (fastd_buffer_alloc fresh 0 (min_encrypt_head_space m) 0) out
                            \<in> set evs)) \<and>
                      (session_is_valid m
                          (map_option (fst (decrypt m (method_state (session ps)) buffer))
                             (method_state (session ps))) \<longrightarrow>
                         (\<exists>sl out. Encrypt sl (fastd_buffer_alloc fresh 0 (min_encrypt_head_space m) 0) out
                            \<in> set evs)))) \<and>
                (\<not> session_is_valid m None \<longrightarrow>
                   (\<forall>ctx' fresh' buffer'.
                      Previous \<notin> set (decrypt_slots
                        (snd (protocol_handle_recv ctx' m fresh' peer' buffer')))))) \<and>
             (\<forall>sl rb. Decrypt sl buffer (Some rb) \<in> set evs \<longrightarrow>
                (if buf_len rb = 0
                 then Buffer_free rb \<in> set evs \<and> (\<forall>b. Handle_receive b \<notin> set evs)
                 else Handle_receive rb \<in> set evs)) \<and>
             (\<forall>sl b sb. Encrypt sl b (Some sb) \<in> set evs \<longrightarrow> Send (address peer) sb \<in> set evs))"
    (is "?drop \<and> (\<forall>ps. _ \<longrightarrow> _ \<longrightarrow> ?big ps)")
proof (rule conjI)
  show ?drop
    using recv_without_valid_session [OF _ run] est by blast
next
  show "\<forall>ps. protocol_state peer = Some ps \<longrightarrow> is_session_valid m (session ps) \<longrightarrow> ?big ps"
  proof (intro allI impI)
    fix ps
    assume "protocol_state peer = Some ps" and "is_session_valid m (session ps)"
    with est show "?big ps"
      using run by (rule recv_with_valid_session)
  qed
qed

theorem protocol_handle_recv_established_witness:
  "established rekeyed_peer \<and>
   protocol_state rekeyed_peer =
     Some \<lparr>old_session = test_session True True 1, session = test_session False True 2\<rparr> \<and>
   is_session_valid test_method (test_session False True 2) \<and>
   \<not> handshakes_cleaned (test_session False True 2) \<and>
   \<not> session_is_valid test_method None \<and>
   Decrypt Current (test_buffer 2 0) (Some (test_buffer 2 0))
     \<in> set (snd (protocol_handle_recv (ctx_at 100) test_method 9 rekeyed_peer (test_buffer 2 0))) \<and>
   decrypt_slots (snd (protocol_handle_recv (ctx_at 100) test_method 9 rekeyed_peer (test_buffer 2 0)))
     = [Previous, Current] \<and>
   Delete_peer_handshakes
     \<in> set (snd (protocol_handle_recv (ctx_at 100) test_method 9 rekeyed_peer (test_buffer 2 0))) \<and>
   Buffer_free (test_buffer 2 0)
     \<in> set (snd (protocol_handle_recv (ctx_at 100) test_method 9 rekeyed_peer (test_buffer 2 0))) \<and>
   Previous \<notin> set (decrypt_slots (snd (protocol_handle_recv (ctx_at 101) test_method 10
      (fst (protocol_handle_recv (ctx_at 100) test_method 9 rekeyed_peer (test_buffer 2 0)))
      (test_buffer 1 4)))) \<and>
   established (test_peer no_session expired_session) \<and>
   \<not> is_session_valid test_method expired_session \<and>
   snd (protocol_handle_recv (ctx_at 100) test_method 9 (test_peer no_session expired_session)
          (test_buffer 2 5)) = [Buffer_free (test_buffer 2 5)]"
proof -
  let ?ps = "\<lparr>old_session = test_session True True 1, session = test_session False True 2\<rparr>"
  let ?r = "protocol_handle_recv (ctx_at 100) test_method 9 rekeyed_peer (test_buffer 2 0)"
  have h1: "established rekeyed_peer"
    by (simp add: rekeyed_peer_def test_peer_def)
  have h2: "protocol_state rekeyed_peer = Some ?ps"
    by (simp add: rekeyed_peer_def test_peer_def)
  have h3: "is_session_valid test_method (session ?ps)"
    by (simp add: is_session_valid_def test_method_def test_session_def)
  have h4: "?r = (fst ?r, snd ?r)"
    by simp
  have d: "Decrypt Current (test_buffer 2 0) (Some (test_buffer 2 0)) \<in> set (snd ?r)"
    by code_simp
  have c: "\<not> handshakes_cleaned (session ?ps)" "buf_len (test_buffer 2 0) = 0"
    by (simp_all add: test_session_def test_buffer_def)
  have v: "\<not> session_is_valid test_method None"
    by (simp add: test_method_def)
  have o: "is_session_valid test_method (old_session ?ps)"
      "snd (decrypt test_method (method_state (old_session ?ps)) (test_buffer 2 0)) = None"
    by (simp_all add: is_session_valid_def test_method_def test_session_def test_buffer_def)
  note t = protocol_handle_recv_established [OF h1 h4, THEN conjunct2, rule_format, OF h2 h3]
  from t have t1: "decrypt_slots (snd ?r) = [Previous, Current]"
    using o by simp
  from t d c v have t2: "Delete_peer_handshakes \<in> set (snd ?r)"
    and t3: "Buffer_free (test_buffer 2 0) \<in> set (snd ?r)"
    and t4: "Previous \<notin> set (decrypt_slots (snd (protocol_handle_recv (ctx_at 101) test_method 10
      (fst ?r) (test_buffer 1 4))))"
    by metis+
  let ?q = "protocol_handle_recv (ctx_at 100) test_method 9 (test_peer no_session expired_session)
              (test_buffer 2 5)"
  have e1: "established (test_peer no_session expired_session)"
    by (simp add: test_peer_def)
  have e2: "?q = (fst ?q, snd ?q)"
    by simp
  have e3: "\<not> is_session_valid test_method expired_session"
    by (simp add: is_session_valid_def test_method_def expired_session_def)
  have e4: "protocol_state (test_peer no_session expired_session) =
              Some \<lparr>old_session = no_session, session = expired_session\<rparr>"
    by (simp add: test_peer_def)
  from protocol_handle_recv_established [OF e1 e2, THEN conjunct1] e3 e4
  have t5: "snd ?q = [Buffer_free (test_buffer 2 5)]"
    by simp
  show ?thesis
    using h1 h2 h3 c v d t1 t2 t3 t4 e1 e3 t5 by simp
qed


section \<open>Properties of the handshake\<close>

lemma session_inits_append: "session_inits (xs @ ys) = session_inits xs @ session_inits ys"
  by (induction xs rule: session_inits.induct) simp_all

lemma crypto_ops_append: "crypto_ops (xs @ ys) = crypto_ops xs @ crypto_ops ys"
  by (induction xs rule: crypto_ops.induct) simp_all

lemma handshakes_sent_append: "handshakes_sent (xs @ ys) = handshakes_sent xs @ handshakes_sent ys"
  by (induction xs rule: handshakes_sent.induct) simp_all

lemma send_state_no_session_init:
  "protocol_send_state ctx m addr ps buffer = (ps', evs) \<Longrightarrow> session_inits evs = []"
  by (auto simp: protocol_send_state_def check_session_refresh_def Let_def session_inits_append
      split: prod.splits option.splits if_splits)

lemma session_inits_agreement_ops [simp]: "session_inits agreement_ops = []"
  by (simp add: agreement_ops_def)

lemma establish_session_inits:
  "session_inits (snd (establish cr ctx m fresh claim_ok reset peers peer_conf addr initiator
                         A B X Y sigma)) =
     (if peer_index peers (pc_id peer_conf) = None then []
      else [(crypto_hash_sha256 cr (X @ Y @ A @ B @ sigma), HASHBYTES, initiator)])"
  by (auto simp: establish_def Let_def session_inits_append
      split: option.splits prod.splits dest: send_state_no_session_init)

text \<open>
  C5 as stated fails.  In a run of \<^verbatim>\<open>finish_handshake\<close> (the initiator) with the long-term
  keys 1 (local) and 2 (peer) and the handshake keys 3 (local) and 4 (peer), the secret
  handed to \<^verbatim>\<open>session_init\<close> is the hash of the keys in the order 1, 2, 3, 4: the
  long-term keys come first, not the handshake keys.
\<close>

theorem session_secret_order:
  "session_inits (snd finish_run) =
     [(crypto_hash_sha256 test_crypto
         (test_key 1 @ test_key 2 @ test_key 3 @ test_key 4 @ finish_sigma), HASHBYTES, True)] \<and>
   crypto_hash_sha256 test_crypto (test_key 1 @ test_key 2 @ test_key 3 @ test_key 4 @ finish_sigma)
     \<noteq> crypto_hash_sha256 test_crypto
         (test_key 3 @ test_key 4 @ test_key 1 @ test_key 2 @ finish_sigma) \<and>
   conf_public_key local_conf = test_key 1 \<and> pc_public_key remote_conf = test_key 2 \<and>
   hk_public_key local_hkey = test_key 3"
  by code_simp

text \<open>
  C5, amended.  \<^verbatim>\<open>establish\<close> derives the session secret as the SHA-256 hash of its
  parameters in the order \<^verbatim>\<open>X\<close>, \<^verbatim>\<open>Y\<close>, \<^verbatim>\<open>A\<close>, \<^verbatim>\<open>B\<close>, \<^verbatim>\<open>sigma\<close>.  Both callers bind \<^verbatim>\<open>X\<close> and
  \<^verbatim>\<open>Y\<close> to the long-term keys and \<^verbatim>\<open>A\<close> and \<^verbatim>\<open>B\<close> to the handshake keys, so on both sides
  the hashed string is: initiator long-term key, responder long-term key, initiator
  handshake key, responder handshake key, encoded point.  \<^verbatim>\<open>finish_handshake\<close> and
  \<^verbatim>\<open>handle_finish_handshake\<close> reach \<^verbatim>\<open>establish\<close> when the point is not the identity, the
  received tag verifies and the peer exists.
\<close>

theorem session_secret_derivation:
  "session_inits (snd (establish cr ctx m fresh claim_ok reset peers peer_conf addr initiator
                         A B X Y sigma)) =
     (if peer_index peers (pc_id peer_conf) = None then []
      else [(crypto_hash_sha256 cr (X @ Y @ A @ B @ sigma), HASHBYTES, initiator)]) \<and>
   session_inits (snd (finish_handshake cr ctx m fresh claim_ok reset conf peers addr peer_conf
                         hkey peer_hkey handshake)) =
     (if ecc_25519_is_identity cr (initiator_work cr conf peer_conf hkey peer_hkey)
         \<or> \<not> crypto_auth_hmacsha256_verify cr (rec_data (records handshake RECORD_T))
               (pc_public_key peer_conf @ peer_hkey)
               (crypto_hash_sha256 cr (initiator_hashinput conf peer_conf hkey peer_hkey @
                  ecc_25519_store cr (initiator_work cr conf peer_conf hkey peer_hkey)))
         \<or> peer_index peers (pc_id peer_conf) = None
      then []
      else [(crypto_hash_sha256 cr
               (conf_public_key conf @ pc_public_key peer_conf @ hk_public_key hkey @ peer_hkey @
                ecc_25519_store cr (initiator_work cr conf peer_conf hkey peer_hkey)),
             HASHBYTES, True)]) \<and>
   session_inits (snd (handle_finish_handshake cr ctx m fresh claim_ok reset conf peers addr
                         peer_conf hkey peer_hkey handshake)) =
     (if ecc_25519_is_identity cr (responder_work cr conf peer_conf hkey peer_hkey)
         \<or> \<not> crypto_auth_hmacsha256_verify cr (rec_data (records handshake RECORD_T))
               (pc_public_key peer_conf @ peer_hkey)
               (crypto_hash_sha256 cr (responder_hashinput conf peer_conf hkey peer_hkey @
                  ecc_25519_store cr (responder_work cr conf peer_conf hkey peer_hkey)))
         \<or> peer_index peers (pc_id peer_conf) = None
      then []
      else [(crypto_hash_sha256 cr
               (pc_public_key peer_conf @ conf_public_key conf @ peer_hkey @ hk_public_key hkey @
                ecc_25519_store cr (responder_work cr conf peer_conf hkey peer_hkey)),
             HASHBYTES, False)])"
proof (intro conjI)
  show "session_inits (snd (establish cr ctx m fresh claim_ok reset peers peer_conf addr initiator
                         A B X Y sigma)) =
     (if peer_index peers (pc_id peer_conf) = None then []
      else [(crypto_hash_sha256 cr (X @ Y @ A @ B @ sigma), HASHBYTES, initiator)])"
    by (rule establish_session_inits)
next
  show "session_inits (snd (finish_handshake cr ctx m fresh claim_ok reset conf peers addr peer_conf
                         hkey peer_hkey handshake)) =
     (if ecc_25519_is_identity cr (initiator_work cr conf peer_conf hkey peer_hkey)
         \<or> \<not> crypto_auth_hmacsha256_verify cr (rec_data (records handshake RECORD_T))
               (pc_public_key peer_conf @ peer_hkey)
               (crypto_hash_sha256 cr (initiator_hashinput conf peer_conf hkey peer_hkey @
                  ecc_25519_store cr (initiator_work cr conf peer_conf hkey peer_hkey)))
         \<or> peer_index peers (pc_id peer_conf) = None
      then []
      else [(crypto_hash_sha256 cr
               (conf_public_key conf @ pc_public_key peer_conf @ hk_public_key hkey @ peer_hkey @
                ecc_25519_store cr (initiator_work cr conf peer_conf hkey peer_hkey)),
             HASHBYTES, True)])"
    using establish_session_inits [of cr ctx m fresh claim_ok reset peers peer_conf addr True
        "hk_public_key hkey" peer_hkey "conf_public_key conf" "pc_public_key peer_conf"
        "ecc_25519_store cr (initiator_work cr conf peer_conf hkey peer_hkey)"]
    by (auto simp: finish_handshake_def Let_def session_inits_append split: prod.splits)
next
  show "session_inits (snd (handle_finish_handshake cr ctx m fresh claim_ok reset conf peers addr
                         peer_conf hkey peer_hkey handshake)) =
     (if ecc_25519_is_identity cr (responder_work cr conf peer_conf hkey peer_hkey)
         \<or> \<not> crypto_auth_hmacsha256_verify cr (rec_data (records handshake RECORD_T))
               (pc_public_key peer_conf @ peer_hkey)
               (crypto_hash_sha256 cr (responder_hashinput conf peer_conf hkey peer_hkey @
                  ecc_25519_store cr (responder_work cr conf peer_conf hkey peer_hkey)))
         \<or> peer_index peers (pc_id peer_conf) = None
      then []
      else [(crypto_hash_sha256 cr
               (pc_public_key peer_conf @ conf_public_key conf @ peer_hkey @ hk_public_key hkey @
                ecc_25519_store cr (responder_work cr conf peer_conf hkey peer_hkey)),
             HASHBYTES, False)])"
    using establish_session_inits [of cr ctx m fresh claim_ok reset peers peer_conf addr False
        peer_hkey "hk_public_key hkey" "pc_public_key peer_conf" "conf_public_key conf"
        "ecc_25519_store cr (responder_work cr conf peer_conf hkey peer_hkey)"]
    by (auto simp: handle_finish_handshake_def Let_def session_inits_append split: prod.splits)
qed

theorem session_secret_derivation_witness:
  "session_inits (snd finish_run) =
     [(crypto_hash_sha256 test_crypto
         (test_key 1 @ test_key 2 @ test_key 3 @ test_key 4 @ finish_sigma), HASHBYTES, True)]"
proof -
  have 1: "\<not> ecc_25519_is_identity test_crypto
              (initiator_work test_crypto local_conf remote_conf local_hkey (test_key 4))"
    by code_simp
  have 2: "crypto_auth_hmacsha256_verify test_crypto
             (rec_data (records (test_handshake 2 reply_records) RECORD_T))
             (pc_public_key remote_conf @ test_key 4)
             (crypto_hash_sha256 test_crypto
                (initiator_hashinput local_conf remote_conf local_hkey (test_key 4) @
                 ecc_25519_store test_crypto
                   (initiator_work test_crypto local_conf remote_conf local_hkey (test_key 4))))"
    by code_simp
  have 3: "peer_index [test_peer no_session no_session] (pc_id remote_conf) \<noteq> None"
    by code_simp
  have 4: "conf_public_key local_conf = test_key 1" "pc_public_key remote_conf = test_key 2"
    "hk_public_key local_hkey = test_key 3"
    by (simp_all add: local_conf_def remote_conf_def local_hkey_def)
  show ?thesis
    using session_secret_derivation [of test_crypto "ctx_at 100" test_method 9 True
        fastd_peer_reset "[test_peer no_session no_session]" remote_conf 8 True "[]" "[]" "[]" "[]" "[]"
        local_conf local_hkey "test_key 4" "test_handshake 2 reply_records"] 1 2 3 4
    by (simp add: finish_run_def finish_sigma_def)
qed



text \<open>
  C9 as stated fails.  A peer with a valid, confirmed session receives a handshake whose
  address claim fails.  \<^verbatim>\<open>establish\<close> has rotated the sessions and installed the new method
  state (\<^verbatim>\<open>session_init\<close>) before it claims the address, and the reset then leaves the peer
  without the session it had before the call.
\<close>

theorem establish_installs_before_claim:
  "snd (establish test_crypto (ctx_at 100) test_method 9 False fastd_peer_reset [confirmed_peer]
          remote_conf 8 True (test_key 3) (test_key 4) (test_key 1) (test_key 2) (test_key 5)) =
     [Session_free None, Crypto Hash_sha256,
      Session_init (test_key 1 @ test_key 2 @ test_key 3 @ test_key 4 @ test_key 5) 32 True,
      Peer_seen, Claim_address 8 False, Peer_reset] \<and>
   map protocol_state
     (fst (establish test_crypto (ctx_at 100) test_method 9 False fastd_peer_reset [confirmed_peer]
          remote_conf 8 True (test_key 3) (test_key 4) (test_key 1) (test_key 2) (test_key 5))) =
     [None] \<and>
   map protocol_state [confirmed_peer] =
     [Some \<lparr>old_session = no_session, session = test_session True True 2\<rparr>]"
  by code_simp

text \<open>
  C9, amended.  \<^verbatim>\<open>establish\<close> first rotates or frees the sessions, installs the new method
  state and marks the peer seen, and only then claims the remote address.  If the claim
  fails, it resets the peer, which at that point already carries the new session, and
  returns: the peer is not marked established, no keepalive is scheduled and nothing is
  sent.
\<close>

theorem establish_claim_failure:
  assumes "peer_index peers (pc_id peer_conf) = Some i" and "\<not> claim_ok"
  shows "establish cr ctx m fresh claim_ok reset peers peer_conf addr initiator A B X Y sigma =
     (let ps0 = init_peer_state (peers ! i);
          rotate = (is_session_valid m (session ps0) \<and> \<not> is_session_valid m (old_session ps0));
          hash = crypto_hash_sha256 cr (X @ Y @ A @ B @ sigma);
          new = \<lparr>handshakes_cleaned = False, refreshing = False,
                 method_state = session_init m hash HASHBYTES initiator\<rparr>
      in (peers[i := reset ((peers ! i)\<lparr>protocol_state :=
                    Some (ps0\<lparr>old_session := (if rotate then session ps0 else old_session ps0),
                               session := new\<rparr>)\<rparr>)],
          [Session_free (method_state (if rotate then old_session ps0 else session ps0)),
           Crypto Hash_sha256, Session_init hash HASHBYTES initiator, Peer_seen,
           Claim_address addr False, Peer_reset]))"
  using assms
  by (auto simp: establish_def Let_def)

theorem establish_claim_failure_witness:
  "peer_index [confirmed_peer] (pc_id remote_conf) = Some 0 \<and>
   establish test_crypto (ctx_at 100) test_method 9 False fastd_peer_reset [confirmed_peer]
          remote_conf 8 True (test_key 3) (test_key 4) (test_key 1) (test_key 2) (test_key 5) =
     ([confirmed_peer\<lparr>established := False, protocol_state := None\<rparr>],
      [Session_free None, Crypto Hash_sha256,
       Session_init (test_key 1 @ test_key 2 @ test_key 3 @ test_key 4 @ test_key 5) 32 True,
       Peer_seen, Claim_address 8 False, Peer_reset])"
proof -
  have 1: "peer_index [confirmed_peer] (pc_id remote_conf) = Some 0"
    by code_simp
  have 2: "\<not> False" by simp
  have 3: "is_session_valid test_method (session (init_peer_state confirmed_peer))"
    "\<not> is_session_valid test_method (old_session (init_peer_state confirmed_peer))"
    "method_state (old_session (init_peer_state confirmed_peer)) = None"
    by (simp_all add: is_session_valid_def test_method_def init_peer_state_def confirmed_peer_def
        test_peer_def test_session_def no_session_def)
  show ?thesis
    using establish_claim_failure [OF 1 2, of test_crypto "ctx_at 100" test_method 9
        fastd_peer_reset 8 True "test_key 3" "test_key 4" "test_key 1" "test_key 2" "test_key 5"]
      1 3
    by (simp add: Let_def fastd_peer_reset_def test_crypto_def HASHBYTES_def)
qed


text \<open>
  The order holds on every path: whether the claim succeeds or fails, \<^verbatim>\<open>establish\<close> has
  freed a session, hashed, installed the new method state and marked the peer seen before
  it claims the address.
\<close>

lemma establish_claims_after_session_init:
  assumes "peer_index peers (pc_id peer_conf) = Some i"
  shows "\<exists>st rest.
           snd (establish cr ctx m fresh claim_ok reset peers peer_conf addr initiator
                  A B X Y sigma) =
             [Session_free st, Crypto Hash_sha256,
              Session_init (crypto_hash_sha256 cr (X @ Y @ A @ B @ sigma)) HASHBYTES initiator,
              Peer_seen, Claim_address addr claim_ok] @ rest"
  using assms
  by (auto simp: establish_def Let_def split: prod.splits)

subsection \<open>The handshake handler\<close>

lemma scan_peer_configs_events:
  "scan_peer_configs confs addr key = (r, ev) \<Longrightarrow> crypto_ops ev = [] \<and> handshakes_sent ev = []"
  by (induction confs addr key rule: scan_peer_configs.induct) (auto split: if_splits)

lemma match_sender_key_events:
  "match_sender_key confs addr pc key = (r, ev) \<Longrightarrow> crypto_ops ev = [] \<and> handshakes_sent ev = []"
  by (auto simp: match_sender_key_def split: option.splits if_splits dest: scan_peer_configs_events)

lemma crypto_ops_agreement_ops:
  "crypto_ops agreement_ops =
     [Hash_sha256, Secret_mult, Secret_add, Load, Load, Scalarmult, Add, Scalarmult, Is_identity]"
  by (simp add: agreement_ops_def)

lemma respond_handshake_crypto: "crypto_ops (respond_handshake cr conf addr pc hkey pk h) \<noteq> []"
  by (simp add: respond_handshake_def Let_def crypto_ops_append crypto_ops_agreement_ops)

lemma finish_handshake_crypto:
  "finish_handshake cr ctx m fresh claim_ok reset conf peers addr pc hkey pk h = (p, ev) \<Longrightarrow>
   crypto_ops ev \<noteq> []"
  by (auto simp: finish_handshake_def Let_def crypto_ops_append crypto_ops_agreement_ops
      split: if_splits prod.splits)

lemma handle_finish_handshake_crypto:
  "handle_finish_handshake cr ctx m fresh claim_ok reset conf peers addr pc hkey pk h = (p, ev) \<Longrightarrow>
   crypto_ops ev \<noteq> []"
  by (auto simp: handle_finish_handshake_def Let_def crypto_ops_append crypto_ops_agreement_ops
      split: if_splits prod.splits)

lemma maintenance_sends_nothing:
  "maintenance cr ctx rnd state0 = (st, ev0) \<Longrightarrow> handshakes_sent ev0 = []"
  by (auto simp: maintenance_def Let_def split: if_splits)

text \<open>
  C8 as stated fails.  \<^verbatim>\<open>maintenance\<close> runs before any check: a message without any
  record, arriving when no handshake key is preferred, makes the handler draw random
  bytes and compute a new handshake key pair.
\<close>

theorem maintenance_before_checks:
  "\<not> has_field (test_handshake 1 Map.empty) RECORD_SENDER_KEY PUBLICKEYBYTES \<and>
   crypto_ops (snd (snd (handle_run None None (test_handshake 1 Map.empty)))) =
     [Random_bytes, Secret_sanitize, Scalarmult_base, Store]"
  by code_simp

text \<open>
  C8, amended.  Apart from the handshake key maintenance, which runs first on every call,
  \<^verbatim>\<open>protocol_handshake_handle\<close> calls no cryptographic primitive unless the message has
  type 1, 2 or 3 and carries a 32-byte sender key and a 32-byte sender handshake key, and
  for the types 2 and 3 also a 32-byte recipient key equal to the local public key, a
  32-byte recipient handshake key and a 32-byte \<^verbatim>\<open>T\<close>.  For the types 2 and 3 the local
  handshake key passed on is the current one if it is valid and matches the recipient
  handshake key, else the previous one, which then is valid and matches; if neither does,
  the message is dropped.  A message of any other type is dropped: no primitive is
  called, no handshake is sent, no peer changes.
\<close>

theorem handshake_handle_checks:
  fixes m :: "'m fastd_method" and ev0 :: "'m event list"
  assumes mnt: "maintenance cr ctx rnd state0 = (st, ev0)"
    and run: "protocol_handshake_handle cr ctx m fresh claim_ok reset rnd conf confs state0 peers
                addr peer_conf0 h = (st', peers', evs)"
  shows "st' = st \<and>
    (crypto_ops evs \<noteq> crypto_ops ev0 \<longrightarrow>
       has_field h RECORD_SENDER_KEY PUBLICKEYBYTES \<and>
       has_field h RECORD_SENDER_HANDSHAKE_KEY PUBLICKEYBYTES \<and>
       (hs_type h = 1 \<or> hs_type h = 2 \<or> hs_type h = 3) \<and>
       (hs_type h \<noteq> 1 \<longrightarrow>
          has_field h RECORD_RECEIPIENT_KEY PUBLICKEYBYTES \<and>
          key_equal (conf_public_key conf) (rec_data (records h RECORD_RECEIPIENT_KEY)) \<and>
          has_field h RECORD_RECEIPIENT_HANDSHAKE_KEY PUBLICKEYBYTES \<and>
          has_field h RECORD_T HMACBYTES \<and>
          ((is_handshake_key_valid ctx (handshake_key st) \<and>
            key_equal (hk_public_key (handshake_key st))
              (rec_data (records h RECORD_RECEIPIENT_HANDSHAKE_KEY))) \<or>
           (is_handshake_key_valid ctx (prev_handshake_key st) \<and>
            key_equal (hk_public_key (prev_handshake_key st))
              (rec_data (records h RECORD_RECEIPIENT_HANDSHAKE_KEY)))) \<and>
          (\<exists>pc ev1.
             match_sender_key confs addr peer_conf0 (rec_data (records h RECORD_SENDER_KEY)) =
               (Some pc, ev1) \<and>
             (peers', evs) =
               (case (if hs_type h = 2 then finish_handshake else handle_finish_handshake)
                       cr ctx m fresh claim_ok reset conf peers addr pc
                       (if is_handshake_key_valid ctx (handshake_key st) \<and>
                           key_equal (hk_public_key (handshake_key st))
                             (rec_data (records h RECORD_RECEIPIENT_HANDSHAKE_KEY))
                        then handshake_key st else prev_handshake_key st)
                       (rec_data (records h RECORD_SENDER_HANDSHAKE_KEY)) h of
                  (p, ev) \<Rightarrow> (p, ev0 @ ev1 @ ev))))) \<and>
    (hs_type h \<noteq> 1 \<and> hs_type h \<noteq> 2 \<and> hs_type h \<noteq> 3 \<longrightarrow>
       crypto_ops evs = crypto_ops ev0 \<and> handshakes_sent evs = [] \<and> peers' = peers)"
proof -
  obtain r ev1 where ms:
    "match_sender_key confs addr peer_conf0 (rec_data (records h RECORD_SENDER_KEY)) =
       (r, ev1 :: 'm event list)"
    by (cases "match_sender_key confs addr peer_conf0 (rec_data (records h RECORD_SENDER_KEY))
                 :: fastd_peer_config option \<times> 'm event list") auto
  note me = match_sender_key_events [OF ms] maintenance_sends_nothing [OF mnt]
  show ?thesis
    using run mnt ms me
    unfolding protocol_handshake_handle_def locate_handshake_key_def
    by (auto simp: crypto_ops_append handshakes_sent_append
        split: option.splits prod.splits if_splits
        dest: finish_handshake_crypto handle_finish_handshake_crypto
        simp: respond_handshake_crypto)
qed


theorem handshake_handle_checks_witness:
  "crypto_ops (snd (snd (handle_run (Some test_pool) (Some remote_conf)
      (test_handshake 2 reply_records)))) \<noteq> [] \<and>
   hs_type (test_handshake 2 reply_records) = 2 \<and>
   has_field (test_handshake 2 reply_records) RECORD_SENDER_KEY PUBLICKEYBYTES \<and>
   has_field (test_handshake 2 reply_records) RECORD_T HMACBYTES \<and>
   key_equal (conf_public_key local_conf)
     (rec_data (records (test_handshake 2 reply_records) RECORD_RECEIPIENT_KEY)) \<and>
   fst (handle_run (Some test_pool) (Some remote_conf) (test_handshake 2 reply_records)) = test_pool"
proof -
  let ?h = "test_handshake 2 reply_records"
  let ?r = "handle_run (Some test_pool) (Some remote_conf) ?h"
  have mnt: "maintenance test_crypto (ctx_at 100) (test_key 9) (Some test_pool) =
               (test_pool, [] :: test_state event list)"
    by code_simp
  have run: "protocol_handshake_handle test_crypto (ctx_at 100) test_method 9 True fastd_peer_reset
       (test_key 9) local_conf [remote_conf] (Some test_pool) [test_peer no_session no_session] 8
       (Some remote_conf) ?h = (fst ?r, fst (snd ?r), snd (snd ?r))"
    by (simp add: handle_run_def)
  have c: "crypto_ops (snd (snd ?r)) \<noteq> crypto_ops ([] :: test_state event list)"
    by code_simp
  have t: "hs_type ?h = 2" by (simp add: test_handshake_def)
  from handshake_handle_checks [OF mnt run] c t show ?thesis
    by simp
qed

text \<open>
  Whenever the handler calls no primitive beyond the maintenance (every \<^verbatim>\<open>return\<close> before
  the \<^verbatim>\<open>switch\<close>, no valid matching handshake key in the cases 2 and 3, an unknown type),
  it sends no handshake and changes no peer.
\<close>

lemma handshake_dropped_quietly:
  fixes m :: "'m fastd_method" and ev0 :: "'m event list"
  assumes mnt: "maintenance cr ctx rnd state0 = (st, ev0)"
    and run: "protocol_handshake_handle cr ctx m fresh claim_ok reset rnd conf confs state0 peers
                addr peer_conf0 h = (st', peers', evs)"
    and quiet: "crypto_ops evs = crypto_ops ev0"
  shows "handshakes_sent evs = [] \<and> peers' = peers"
proof -
  obtain r ev1 where ms:
    "match_sender_key confs addr peer_conf0 (rec_data (records h RECORD_SENDER_KEY)) =
       (r, ev1 :: 'm event list)"
    by (cases "match_sender_key confs addr peer_conf0 (rec_data (records h RECORD_SENDER_KEY))
                 :: fastd_peer_config option \<times> 'm event list") auto
  note me = match_sender_key_events [OF ms] maintenance_sends_nothing [OF mnt]
  show ?thesis
    using run mnt ms me quiet
    unfolding protocol_handshake_handle_def
    by (auto simp: crypto_ops_append handshakes_sent_append
        split: option.splits prod.splits if_splits
        dest: finish_handshake_crypto handle_finish_handshake_crypto
        simp: respond_handshake_crypto)
qed

text \<open>
  C10.  Whatever the type of the message, a recipient key record of length 32 that differs
  from the local public key makes \<^verbatim>\<open>protocol_handshake_handle\<close> drop the message: beyond
  the maintenance no primitive is called, no handshake is sent and no peer changes.  A
  message of type 1 without that record, with a sender key that matches a peer and a
  sender handshake key, is answered by \<^verbatim>\<open>respond_handshake\<close>.
\<close>

theorem recipient_key_check:
  fixes m :: "'m fastd_method" and ev0 :: "'m event list"
  assumes mnt: "maintenance cr ctx rnd state0 = (st, ev0)"
    and run: "protocol_handshake_handle cr ctx m fresh claim_ok reset rnd conf confs state0 peers
                addr peer_conf0 h = (st', peers', evs)"
  shows "(has_field h RECORD_RECEIPIENT_KEY PUBLICKEYBYTES \<and>
          \<not> key_equal (conf_public_key conf) (rec_data (records h RECORD_RECEIPIENT_KEY)) \<longrightarrow>
            crypto_ops evs = crypto_ops ev0 \<and> handshakes_sent evs = [] \<and> peers' = peers) \<and>
         (hs_type h = 1 \<and> \<not> has_field h RECORD_RECEIPIENT_KEY PUBLICKEYBYTES \<and>
          has_field h RECORD_SENDER_KEY PUBLICKEYBYTES \<and>
          has_field h RECORD_SENDER_HANDSHAKE_KEY PUBLICKEYBYTES \<longrightarrow>
            (\<forall>pc ev1.
               match_sender_key confs addr peer_conf0 (rec_data (records h RECORD_SENDER_KEY)) =
                 (Some pc, ev1) \<longrightarrow>
               peers' = peers \<and>
               evs = ev0 @ ev1 @
                 respond_handshake cr conf addr pc (handshake_key st)
                   (rec_data (records h RECORD_SENDER_HANDSHAKE_KEY)) h))"
proof -
  obtain r ev1 where ms:
    "match_sender_key confs addr peer_conf0 (rec_data (records h RECORD_SENDER_KEY)) =
       (r, ev1 :: 'm event list)"
    by (cases "match_sender_key confs addr peer_conf0 (rec_data (records h RECORD_SENDER_KEY))
                 :: fastd_peer_config option \<times> 'm event list") auto
  note me = match_sender_key_events [OF ms] maintenance_sends_nothing [OF mnt]
  show ?thesis
    using run mnt ms me
    unfolding protocol_handshake_handle_def
    by (auto simp: crypto_ops_append handshakes_sent_append
        split: option.splits prod.splits if_splits)
qed

theorem recipient_key_check_witness:
  "has_field (test_handshake 1 [RECORD_SENDER_KEY \<mapsto> test_key 2, RECORD_RECEIPIENT_KEY \<mapsto> test_key 7,
       RECORD_SENDER_HANDSHAKE_KEY \<mapsto> test_key 4]) RECORD_RECEIPIENT_KEY PUBLICKEYBYTES \<and>
   \<not> key_equal (conf_public_key local_conf) (test_key 7) \<and>
   snd (handle_run (Some test_pool) (Some remote_conf)
     (test_handshake 1 [RECORD_SENDER_KEY \<mapsto> test_key 2, RECORD_RECEIPIENT_KEY \<mapsto> test_key 7,
       RECORD_SENDER_HANDSHAKE_KEY \<mapsto> test_key 4])) = ([test_peer no_session no_session], []) \<and>
   snd (snd (handle_run (Some test_pool) (Some remote_conf)
     (test_handshake 1 [RECORD_SENDER_KEY \<mapsto> test_key 2,
       RECORD_SENDER_HANDSHAKE_KEY \<mapsto> test_key 4]))) =
     respond_handshake test_crypto local_conf 8 remote_conf local_hkey (test_key 4)
       (test_handshake 1 [RECORD_SENDER_KEY \<mapsto> test_key 2,
          RECORD_SENDER_HANDSHAKE_KEY \<mapsto> test_key 4])"
proof -
  let ?bad = "test_handshake 1 [RECORD_SENDER_KEY \<mapsto> test_key 2, RECORD_RECEIPIENT_KEY \<mapsto> test_key 7,
       RECORD_SENDER_HANDSHAKE_KEY \<mapsto> test_key 4]"
  let ?good = "test_handshake 1 [RECORD_SENDER_KEY \<mapsto> test_key 2,
       RECORD_SENDER_HANDSHAKE_KEY \<mapsto> test_key 4]"
  let ?rb = "handle_run (Some test_pool) (Some remote_conf) ?bad"
  let ?rg = "handle_run (Some test_pool) (Some remote_conf) ?good"
  have mnt: "maintenance test_crypto (ctx_at 100) (test_key 9) (Some test_pool) =
               (test_pool, [] :: test_state event list)"
    by code_simp
  have runb: "protocol_handshake_handle test_crypto (ctx_at 100) test_method 9 True fastd_peer_reset
       (test_key 9) local_conf [remote_conf] (Some test_pool) [test_peer no_session no_session] 8
       (Some remote_conf) ?bad = (fst ?rb, fst (snd ?rb), snd (snd ?rb))"
    by (simp add: handle_run_def)
  have rung: "protocol_handshake_handle test_crypto (ctx_at 100) test_method 9 True fastd_peer_reset
       (test_key 9) local_conf [remote_conf] (Some test_pool) [test_peer no_session no_session] 8
       (Some remote_conf) ?good = (fst ?rg, fst (snd ?rg), snd (snd ?rg))"
    by (simp add: handle_run_def)
  have b: "has_field ?bad RECORD_RECEIPIENT_KEY PUBLICKEYBYTES"
    "\<not> key_equal (conf_public_key local_conf) (rec_data (records ?bad RECORD_RECEIPIENT_KEY))"
    "rec_data (records ?bad RECORD_RECEIPIENT_KEY) = test_key 7"
    "snd (snd ?rb) = []"
    by code_simp+
  have g: "hs_type ?good = 1" "\<not> has_field ?good RECORD_RECEIPIENT_KEY PUBLICKEYBYTES"
    "has_field ?good RECORD_SENDER_KEY PUBLICKEYBYTES"
    "has_field ?good RECORD_SENDER_HANDSHAKE_KEY PUBLICKEYBYTES"
    "rec_data (records ?good RECORD_SENDER_HANDSHAKE_KEY) = test_key 4"
    "handshake_key test_pool = local_hkey"
    by code_simp+
  have k: "key_equal (pc_public_key remote_conf) (rec_data (records ?good RECORD_SENDER_KEY))"
    by code_simp
  have g': "match_sender_key [remote_conf] 8 (Some remote_conf)
              (rec_data (records ?good RECORD_SENDER_KEY))
       = (Some remote_conf, [] :: test_state event list)"
    using k by (simp add: match_sender_key_def)
  from recipient_key_check [OF mnt runb] b have 1: "fst (snd ?rb) = [test_peer no_session no_session]"
    by simp
  from recipient_key_check [OF mnt rung] g g'
  have 2: "snd (snd ?rg) = respond_handshake test_crypto local_conf 8 remote_conf local_hkey
      (test_key 4) ?good"
    by simp
  show ?thesis
    using 1 2 b by (simp add: prod_eq_iff)
qed


end
